theory Spec2Isabelle
  imports Main "HOL-Library.Sublist" "HOL-Library.AList"
begin

section \<open>Storefront renderer: a shallow embedding\<close>

text \<open>
  The repository is a multi-tenant storefront renderer written in TypeScript and
  JavaScript. This theory embeds the functions of its request pipeline:
  the Liquid filter \<open>handleize\<close> (renderer-service.ts), the route resolver
  \<open>resolveRoute\<close> (routes/storefront.ts), the cached catalog lookups \<open>getProducts\<close>,
  \<open>getCollections\<close> and \<open>invalidateProductCache\<close> (product-service.ts), the tenant
  resolver \<open>getTenantFromHost\<close> (tenant-service.ts), the theme loader
  \<open>getThemeForTenant\<close> (theme-service.ts), the page renderer \<open>renderPage\<close>
  (renderer-service.ts) and the block renderer \<open>renderBlock\<close> of the stand-alone
  server (part_007).

  Conventions. A JavaScript string is a \<^typ>\<open>string\<close>. An exception is the left
  summand of a sum (\<open>Inl\<close>), a returned value the right one. An \<open>async\<close> function is
  modelled by its result once every awaited call has returned. A function that reads or
  writes a cache takes the state and returns the new one. Calls of the logger are left
  out: they change neither a result nor a cache.
\<close>

subsection \<open>Errors\<close>

text \<open>
  \<open>Error msg\<close> is \<open>throw new Error(msg)\<close> of the repository's own code. The other
  constructors are the failures of the libraries the code calls: a failing Redis
  command, a failing database query, a failing call of the blob store (with the error's
  \<open>name\<close>), a \<open>SyntaxError\<close> of \<open>JSON.parse\<close>, a failure of the template engine and a
  \<open>TypeError\<close> of the JavaScript runtime.
\<close>

datatype error =
    Error string
  | RedisError
  | DbError
  | S3Error string
  | JsonSyntaxError
  | LiquidError string
  | TypeError string

subsection \<open>The handle filter\<close>

text \<open>
  renderer-service.ts:
  \<^verbatim>\<open>
  liquid.registerFilter('handleize', (str: string) => {
    return str
      .toLowerCase()
      .replace(/[^a-z0-9]+/g, '-')
      .replace(/^-|-$/g, '');
  });
  \<close>
  Characters are the 8-bit characters of \<^typ>\<open>char\<close>; \<open>toLowerCase\<close> maps the ASCII
  capitals to their small letters and leaves every other character as it is (what it
  does to characters beyond ASCII is not modelled).
\<close>

definition is_lower_alnum :: "char \<Rightarrow> bool" where
  \<comment> \<open>the character class \<open>[a-z0-9]\<close>\<close>
  "is_lower_alnum c =
     (let n = (of_char c :: nat) in (97 \<le> n \<and> n \<le> 122) \<or> (48 \<le> n \<and> n \<le> 57))"

definition is_handle_char :: "char \<Rightarrow> bool" where
  \<comment> \<open>the character class \<open>[a-z0-9-]\<close>\<close>
  "is_handle_char c = (is_lower_alnum c \<or> c = CHR ''-'')"

definition toLowerCase_char :: "char \<Rightarrow> char" where
  "toLowerCase_char c =
     (let n = (of_char c :: nat) in if 65 \<le> n \<and> n \<le> 90 then char_of (n + 32) else c)"

definition toLowerCase :: "string \<Rightarrow> string" where
  "toLowerCase s = map toLowerCase_char s"

text \<open>
  \<open>.replace(/[^a-z0-9]+/g, '-')\<close>: every maximal run of characters outside
  \<open>[a-z0-9]\<close> becomes one hyphen. The flag says whether the scan is inside such a run,
  whose hyphen has been written already.
\<close>

fun replace_runs :: "bool \<Rightarrow> string \<Rightarrow> string" where
  "replace_runs inrun [] = []"
| "replace_runs inrun (c # cs) =
     (if is_lower_alnum c then c # replace_runs False cs
      else if inrun then replace_runs True cs
      else CHR ''-'' # replace_runs True cs)"

text \<open>
  \<open>.replace(/^-|-$/g, '')\<close>: a hyphen at the start is removed, and then a hyphen at
  the end of what is left (the second match of the global replace starts after the
  first).
\<close>

definition strip_edge_hyphens :: "string \<Rightarrow> string" where
  "strip_edge_hyphens s =
     (let s1 = (case s of [] \<Rightarrow> [] | c # cs \<Rightarrow> if c = CHR ''-'' then cs else s)
      in if s1 \<noteq> [] \<and> last s1 = CHR ''-'' then butlast s1 else s1)"

definition handleize :: "string \<Rightarrow> string" where
  "handleize str = strip_edge_hyphens (replace_runs False (toLowerCase str))"

text \<open>No two hyphens next to each other.\<close>

fun single_hyphens :: "string \<Rightarrow> bool" where
  "single_hyphens (a # b # cs) = ((a \<noteq> CHR ''-'' \<or> b \<noteq> CHR ''-'') \<and> single_hyphens (b # cs))"
| "single_hyphens cs = True"

text \<open>
  The specification's reading of the filter, to compare \<open>handleize\<close> with: the words of
  the lower-cased input (its maximal runs of letters and digits), joined by single
  hyphens. Nothing stands before the first word or after the last one.
\<close>

fun alnum_words :: "string \<Rightarrow> string list" where
  "alnum_words [] = []"
| "alnum_words (c # cs) =
     (if is_lower_alnum c then
        (if cs \<noteq> [] \<and> is_lower_alnum (hd cs) then
           (case alnum_words cs of [] \<Rightarrow> [[c]] | w # ws \<Rightarrow> (c # w) # ws)
         else [c] # alnum_words cs)
      else alnum_words cs)"

fun hyphen_join :: "string list \<Rightarrow> string" where
  "hyphen_join [] = []"
| "hyphen_join [w] = w"
| "hyphen_join (w # v # ws) = w @ ''-'' @ hyphen_join (v # ws)"

definition handleize_spec :: "string \<Rightarrow> string" where
  "handleize_spec str = hyphen_join (alnum_words (toLowerCase str))"

definition trailing_hyphen :: "string \<Rightarrow> string" where
  \<comment> \<open>the hyphen \<open>replace_runs\<close> writes for a run at the end of an input that has a word\<close>
  "trailing_hyphen t =
     (if t \<noteq> [] \<and> \<not> is_lower_alnum (last t) \<and> alnum_words t \<noteq> [] then ''-'' else [])"


subsection \<open>Data\<close>

text \<open>
  The rows of the relational store. A catalog row keeps the columns the pipeline reads or
  filters on (\<open>id\<close>, \<open>title\<close>, \<open>handle\<close>, the publication status and \<open>created_at\<close>, by
  which the queries order); the remaining columns travel with a row unchanged and are
  left out. product-service.ts, tenant-service.ts and theme-service.ts:
  \<^verbatim>\<open>
  interface Product { id: string; title: string; handle: string; status: string; ... }
  interface Collection { id: string; title: string; handle: string; published: boolean;
                         product_count?: number; ... }
  interface Tenant { id: string; tenant_id: string; name: string; custom_domain?: string;
                     status: string; }
  interface Theme { id: string; name: string; version: string; s3_key: string;
                    settings?: any; templates?: Record<string, string>; }
  \<close>
  An object used as a dictionary (\<open>Record<string, string>\<close>) is an association list in
  the order its keys were first written.
\<close>

record product =
  p_id :: string
  p_title :: string
  p_handle :: string
  p_status :: string
  p_created_at :: nat

record collection =
  c_id :: string
  c_title :: string
  c_handle :: string
  c_published :: bool
  c_created_at :: nat

record collection_row = collection +
  product_count :: nat

record tenant =
  t_id :: string
  t_tenant_id :: string
  t_name :: string
  t_custom_domain :: "string option"
  t_status :: string

record domain_mapping =
  dm_domain :: string
  dm_tenant_id :: string
  dm_verified :: bool

record theme_row =
  th_id :: string
  th_name :: string
  th_version :: string
  th_s3_key :: string
  th_settings :: "string option"
  th_role :: string

record theme =
  theme_id :: string
  theme_name :: string
  theme_version :: string
  theme_s3_key :: string
  theme_settings :: "string option"
  theme_templates :: "(string \<times> string) list option"

text \<open>The tables of one tenant's schema \<open>tenant_{tenantId}\<close>.\<close>

record tenant_schema =
  products_table :: "product list"
  collections_table :: "collection list"
  collection_products :: "(string \<times> string) list"
    \<comment> \<open>pairs \<open>(collection_id, product_id)\<close>\<close>
  themes_table :: "theme_row list"

text \<open>
  The options object of \<open>getProducts\<close> and \<open>getCollections\<close>; an absent property is
  \<open>None\<close>.
  \<^verbatim>\<open>
  interface ProductQueryOptions { handle?: string; collection_id?: string;
    featured?: boolean; limit?: number; offset?: number; }
  \<close>
\<close>

record query_options =
  q_handle :: "string option"
  q_collection_id :: "string option"
  q_featured :: "bool option"
  q_limit :: "nat option"
  q_offset :: "nat option"

definition no_options :: query_options where
  "no_options = \<lparr>q_handle = None, q_collection_id = None, q_featured = None,
     q_limit = None, q_offset = None\<rparr>"

subsection \<open>The environment and the state\<close>

text \<open>
  What \<open>JSON.stringify\<close> and \<open>JSON.parse\<close> do is a parameter of the model: the
  text written for a value, and the value (or the \<open>SyntaxError\<close>) read from a text,
  at the type the source declares for it.
\<close>

record json_lib =
  stringify_options :: "query_options \<Rightarrow> string"
  stringify_products :: "product list \<Rightarrow> string"
  parse_products :: "string \<Rightarrow> error + product list"
  stringify_collections :: "collection_row list \<Rightarrow> string"
  parse_collections :: "string \<Rightarrow> error + collection_row list"
  stringify_tenant :: "tenant \<Rightarrow> string"
  parse_tenant :: "string \<Rightarrow> error + tenant option"
  stringify_theme :: "theme \<Rightarrow> string"
  parse_theme :: "string \<Rightarrow> error + theme"

datatype redis_command = GET | SETEX | KEYS | DEL

datatype s3_result =
    S3Fails string
      \<comment> \<open>\<open>s3.send\<close> throws an error of this \<open>name\<close>\<close>
  | S3Body "string option"
      \<comment> \<open>\<open>response.Body?.transformToString()\<close>\<close>

text \<open>
  The environment is what a call cannot change: the configuration (config.ts is not
  among the sources, so its values are parameters), whether \<open>initializeServices\<close> has
  set each client (services/index.ts: \<open>getRedisClient\<close>, \<open>getDbPool\<close> and
  \<open>getS3Client\<close> throw otherwise), which Redis commands fail, whether database queries
  fail, the tables of the relational store and the objects of the blob store.
\<close>

record env =
  keyPrefix :: string
    \<comment> \<open>\<open>config.redis.keyPrefix\<close>\<close>
  themesCacheTTL :: nat
    \<comment> \<open>\<open>config.cache.themesCacheTTL\<close>, seconds\<close>
  dataCacheTTL :: nat
    \<comment> \<open>\<open>config.cache.dataCacheTTL\<close>, seconds\<close>
  redis_ready :: bool
  db_ready :: bool
  s3_ready :: bool
  redis_fails :: "redis_command \<Rightarrow> bool"
  db_fails :: bool
  platform_tenants :: "tenant list"
  platform_domain_mapping :: "domain_mapping list"
  tenant_schemas :: "string \<Rightarrow> tenant_schema option"
  s3_send :: "string \<Rightarrow> s3_result"
  json :: json_lib

text \<open>
  The state is what a call can change: the clock, the keys of the Redis server with
  their values and expiry times, the process-local \<open>NodeCache\<close> of theme-service.ts,
  and the number of database queries and blob-store requests made so far.
\<close>

record state =
  now :: nat
  redis :: "(string \<times> string \<times> nat) list"
  memoryCache :: "(string \<times> theme \<times> nat option) list"
  db_queries :: nat
  s3_requests :: nat

subsection \<open>The Redis client\<close>

text \<open>
  services/index.ts builds the client with \<open>keyPrefix: config.redis.keyPrefix\<close>.
  ioredis then prepends the prefix to every key argument of a command (\<open>get\<close>,
  \<open>setex\<close>, \<open>del\<close>); it neither prepends it to the pattern of \<open>keys\<close> nor strips it
  from the keys that \<open>keys\<close> replies. \<open>SETEX\<close> refuses an expiry of 0. A key whose
  expiry time has come is gone.
\<close>

definition redis_get :: "env \<Rightarrow> state \<Rightarrow> string \<Rightarrow> error + string option" where
  "redis_get env s key =
     (if redis_fails env GET then Inl RedisError
      else Inr (case map_of (redis s) (keyPrefix env @ key) of
                  None \<Rightarrow> None
                | Some (v, expiry) \<Rightarrow> if now s < expiry then Some v else None))"

definition redis_setex :: "env \<Rightarrow> state \<Rightarrow> string \<Rightarrow> nat \<Rightarrow> string \<Rightarrow> error + state" where
  "redis_setex env s key ttl v =
     (if redis_fails env SETEX \<or> ttl = 0 then Inl RedisError
      else Inr (s\<lparr>redis := AList.update (keyPrefix env @ key) (v, now s + ttl) (redis s)\<rparr>))"

text \<open>
  The glob patterns of \<open>KEYS\<close>, after the matcher of the Redis server: \<open>*\<close> matches any
  run of characters, \<open>?\<close> one character, \<open>[...]\<close> one character of a class (negated
  by a leading \<open>^\<close>, with ranges \<open>a-z\<close>), and a backslash takes the next character
  literally.
\<close>

datatype glob_item = One char | Range char char

datatype glob_token = GStar | GAny | GLit char | GClass bool "glob_item list"

fun parse_glob :: "string \<Rightarrow> glob_token list"
  and parse_class :: "bool \<Rightarrow> glob_item list \<Rightarrow> string \<Rightarrow> glob_token list" where
  "parse_glob [] = []"
| "parse_glob (c # p) =
     (if c = CHR ''*'' then GStar # parse_glob p
      else if c = CHR ''?'' then GAny # parse_glob p
      else if c = CHR ''['' then
        (case p of
           [] \<Rightarrow> parse_class False [] p
         | x # q \<Rightarrow> if x = CHR ''^'' then parse_class True [] q else parse_class False [] p)
      else if c = CHR 0x5C then
        (case p of [] \<Rightarrow> [GLit c] | x # q \<Rightarrow> GLit x # parse_glob q)
      else GLit c # parse_glob p)"
| "parse_class neg acc [] = [GClass neg (rev acc)]"
| "parse_class neg acc (c # p) =
     (if c = CHR 0x5C \<and> p \<noteq> [] then
        (case p of [] \<Rightarrow> [] | x # q \<Rightarrow> parse_class neg (One x # acc) q)
      else if c = CHR '']'' then GClass neg (rev acc) # parse_glob p
      else
        (case p of
           m # e # q \<Rightarrow>
             if m = CHR ''-'' then parse_class neg (Range c e # acc) q
             else parse_class neg (One c # acc) p
         | _ \<Rightarrow> parse_class neg (One c # acc) p))"

fun in_item :: "char \<Rightarrow> glob_item \<Rightarrow> bool" where
  "in_item c (One a) = (c = a)"
| "in_item c (Range a b) =
     (let lo = min (of_char a :: nat) (of_char b); hi = max (of_char a :: nat) (of_char b)
      in lo \<le> of_char c \<and> (of_char c :: nat) \<le> hi)"

fun glob_match :: "glob_token list \<Rightarrow> string \<Rightarrow> bool" where
  "glob_match [] s = (s = [])"
| "glob_match (GStar # ts) [] = glob_match ts []"
| "glob_match (GStar # ts) (c # cs) = (glob_match ts (c # cs) \<or> glob_match (GStar # ts) cs)"
| "glob_match (t # ts) [] = False"
| "glob_match (GAny # ts) (c # cs) = glob_match ts cs"
| "glob_match (GLit a # ts) (c # cs) = (a = c \<and> glob_match ts cs)"
| "glob_match (GClass neg items # ts) (c # cs) =
     ((list_ex (in_item c) items \<noteq> neg) \<and> glob_match ts cs)"

definition stringmatch :: "string \<Rightarrow> string \<Rightarrow> bool" where
  "stringmatch pattern key = glob_match (parse_glob pattern) key"

definition redis_keys :: "env \<Rightarrow> state \<Rightarrow> string \<Rightarrow> error + string list" where
  "redis_keys env s pattern =
     (if redis_fails env KEYS then Inl RedisError
      else Inr (map fst (filter (\<lambda>(k, v, expiry). now s < expiry \<and> stringmatch pattern k)
                           (redis s))))"

definition redis_del :: "env \<Rightarrow> state \<Rightarrow> string list \<Rightarrow> error + state" where
  "redis_del env s keys =
     (if redis_fails env DEL then Inl RedisError
      else Inr (s\<lparr>redis := filter (\<lambda>(k, v). k \<notin> set (map (\<lambda>key. keyPrefix env @ key) keys))
                               (redis s)\<rparr>))"

text \<open>
  A string read in a condition (\<open>if (cached)\<close>, \<open>if (handle)\<close>, \<open>if (body)\<close>,
  \<open>x || y\<close>): \<open>undefined\<close>, \<open>null\<close> and the empty string are falsy.
\<close>

definition truthy :: "string option \<Rightarrow> string option" where
  "truthy x = (case x of None \<Rightarrow> None | Some v \<Rightarrow> if v = [] then None else Some v)"

subsection \<open>The relational store\<close>

text \<open>
  Each query of the pipeline is the list of rows it selects. A query fails when the
  database does, or when the tenant's schema does not exist. Where SQL leaves the order
  of rows open (rows with equal \<open>created_at\<close>, the rows of a join), the model takes the
  order of the tables.
  tenant-service.ts:
  \<^verbatim>\<open>
  SELECT t.id, t.tenant_id, t.name, t.custom_domain, t.status
  FROM platform.tenants t
  INNER JOIN platform.domain_mapping dm ON t.tenant_id = dm.tenant_id
  WHERE dm.domain = $1 AND dm.verified = true AND t.status = 'active'
  \<close>
\<close>

definition query_tenant :: "env \<Rightarrow> string \<Rightarrow> tenant list option" where
  "query_tenant env host =
     (if db_fails env then None
      else Some [t. t \<leftarrow> platform_tenants env, dm \<leftarrow> platform_domain_mapping env,
                    t_tenant_id t = dm_tenant_id dm \<and> dm_domain dm = host \<and>
                    dm_verified dm \<and> t_status t = ''active''])"

text \<open>
  product-service.ts, \<open>getProducts\<close> (the aggregated \<open>variants\<close> column is left out):
  \<^verbatim>\<open>
  SELECT p.*, json_agg(...) as variants
  FROM tenant_${tenantId}.products p
  LEFT JOIN tenant_${tenantId}.product_variants pv ON p.id = pv.product_id
  WHERE p.status = 'active'
    [AND p.handle = $n]
    [AND p.id IN (SELECT product_id FROM tenant_${tenantId}.collection_products
                  WHERE collection_id = $n)]
  GROUP BY p.id ORDER BY p.created_at DESC LIMIT $n OFFSET $n+1
  \<close>
\<close>

definition query_products ::
  "env \<Rightarrow> string \<Rightarrow> string option \<Rightarrow> string option \<Rightarrow> nat \<Rightarrow> nat \<Rightarrow> product list option" where
  "query_products env tenantId handle collection_id limit offset =
     (if db_fails env then None
      else case tenant_schemas env tenantId of
        None \<Rightarrow> None
      | Some schema \<Rightarrow>
          Some (take limit (drop offset (rev (sort_key p_created_at
            (filter (\<lambda>p. p_status p = ''active'' \<and>
                          (case handle of None \<Rightarrow> True | Some h \<Rightarrow> p_handle p = h) \<and>
                          (case collection_id of None \<Rightarrow> True
                           | Some c \<Rightarrow> (c, p_id p) \<in> set (collection_products schema)))
               (products_table schema)))))))"

text \<open>
  product-service.ts, \<open>getCollections\<close>:
  \<^verbatim>\<open>
  SELECT c.*, (SELECT COUNT(*) FROM tenant_${tenantId}.collection_products cp
               WHERE cp.collection_id = c.id) as product_count
  FROM tenant_${tenantId}.collections c
  WHERE c.published = true [AND c.handle = $n]
  ORDER BY c.created_at DESC LIMIT $n OFFSET $n+1
  \<close>
\<close>

definition with_product_count :: "tenant_schema \<Rightarrow> collection \<Rightarrow> collection_row" where
  "with_product_count schema c =
     collection.extend c
       (collection_row.fields (length (filter (\<lambda>(cid, pid). cid = c_id c)
                                         (collection_products schema))))"

definition query_collections ::
  "env \<Rightarrow> string \<Rightarrow> string option \<Rightarrow> nat \<Rightarrow> nat \<Rightarrow> collection_row list option" where
  "query_collections env tenantId handle limit offset =
     (if db_fails env then None
      else case tenant_schemas env tenantId of
        None \<Rightarrow> None
      | Some schema \<Rightarrow>
          Some (map (with_product_count schema)
            (take limit (drop offset (rev (sort_key c_created_at
              (filter (\<lambda>c. c_published c \<and>
                            (case handle of None \<Rightarrow> True | Some h \<Rightarrow> c_handle c = h))
                 (collections_table schema))))))))"

text \<open>
  theme-service.ts, \<open>loadThemeFromStorage\<close>:
  \<^verbatim>\<open>
  SELECT id, name, version, s3_key, settings FROM tenant_${tenantId}.themes
  WHERE role = 'main' LIMIT 1
  \<close>
\<close>

definition query_theme :: "env \<Rightarrow> string \<Rightarrow> theme_row list option" where
  "query_theme env tenantId =
     (if db_fails env then None
      else case tenant_schemas env tenantId of
        None \<Rightarrow> None
      | Some schema \<Rightarrow> Some (take 1 (filter (\<lambda>r. th_role r = ''main'') (themes_table schema))))"

definition count_query :: "state \<Rightarrow> state" where
  "count_query s = s\<lparr>db_queries := db_queries s + 1\<rparr>"

subsection \<open>The catalog data provider (part_005, services/product-service.ts)\<close>

text \<open>
  \<^verbatim>\<open>
  export const getProducts = async (tenantId, options = {}) => {
    const { handle, collection_id, featured, limit = 20, offset = 0 } = options;
    const cacheKey = `products:${tenantId}:${JSON.stringify(options)}`;
    try {
      const redis = getRedisClient();
      const cached = await redis.get(cacheKey);
      if (cached) { return JSON.parse(cached); }
      let query = `...`;
      if (handle) { query += ` AND p.handle = $${paramIndex}`; ... }
      if (collection_id) { query += ` AND p.id IN (...)`; ... }
      ...
      const pool = getDbPool();
      const result = await pool.query(query, params);
      const products = result.rows as Product[];
      await redis.setex(cacheKey, config.cache.dataCacheTTL, JSON.stringify(products));
      return products;
    } catch (error) { logger.error(...); throw error; }
  };
  \<close>
  The \<open>featured\<close> option is read and never used in the query; it is part of the cache
  key all the same.
\<close>

definition products_key :: "env \<Rightarrow> string \<Rightarrow> query_options \<Rightarrow> string" where
  "products_key env tenantId options =
     ''products:'' @ tenantId @ '':'' @ stringify_options (json env) options"

definition getProducts ::
  "env \<Rightarrow> state \<Rightarrow> string \<Rightarrow> query_options \<Rightarrow> (error + product list) \<times> state" where
  "getProducts env s tenantId options =
     (let cacheKey = products_key env tenantId options in
      if \<not> redis_ready env then (Inl (Error ''Redis client not initialized''), s)
      else case redis_get env s cacheKey of
        Inl e \<Rightarrow> (Inl e, s)
      | Inr cached \<Rightarrow>
          (case truthy cached of
             Some text \<Rightarrow> (parse_products (json env) text, s)
           | None \<Rightarrow>
               if \<not> db_ready env then (Inl (Error ''Database pool not initialized''), s)
               else
                 (case query_products env tenantId (truthy (q_handle options))
                         (truthy (q_collection_id options))
                         (case q_limit options of None \<Rightarrow> 20 | Some n \<Rightarrow> n)
                         (case q_offset options of None \<Rightarrow> 0 | Some n \<Rightarrow> n) of
                    None \<Rightarrow> (Inl DbError, count_query s)
                  | Some products \<Rightarrow>
                      (case redis_setex env (count_query s) cacheKey (dataCacheTTL env)
                              (stringify_products (json env) products) of
                         Inl e \<Rightarrow> (Inl e, count_query s)
                       | Inr s' \<Rightarrow> (Inr products, s')))))"

text \<open>
  \<^verbatim>\<open>
  export const getCollections = async (tenantId, options = {}) => {
    const { handle, limit = 20, offset = 0 } = options;
    const cacheKey = `collections:${tenantId}:${JSON.stringify(options)}`;
    ... as getProducts, on the collections query ...
  };
  \<close>
\<close>

definition collections_key :: "env \<Rightarrow> string \<Rightarrow> query_options \<Rightarrow> string" where
  "collections_key env tenantId options =
     ''collections:'' @ tenantId @ '':'' @ stringify_options (json env) options"

definition getCollections ::
  "env \<Rightarrow> state \<Rightarrow> string \<Rightarrow> query_options \<Rightarrow> (error + collection_row list) \<times> state" where
  "getCollections env s tenantId options =
     (let cacheKey = collections_key env tenantId options in
      if \<not> redis_ready env then (Inl (Error ''Redis client not initialized''), s)
      else case redis_get env s cacheKey of
        Inl e \<Rightarrow> (Inl e, s)
      | Inr cached \<Rightarrow>
          (case truthy cached of
             Some text \<Rightarrow> (parse_collections (json env) text, s)
           | None \<Rightarrow>
               if \<not> db_ready env then (Inl (Error ''Database pool not initialized''), s)
               else
                 (case query_collections env tenantId (truthy (q_handle options))
                         (case q_limit options of None \<Rightarrow> 20 | Some n \<Rightarrow> n)
                         (case q_offset options of None \<Rightarrow> 0 | Some n \<Rightarrow> n) of
                    None \<Rightarrow> (Inl DbError, count_query s)
                  | Some collections \<Rightarrow>
                      (case redis_setex env (count_query s) cacheKey (dataCacheTTL env)
                              (stringify_collections (json env) collections) of
                         Inl e \<Rightarrow> (Inl e, count_query s)
                       | Inr s' \<Rightarrow> (Inr collections, s')))))"

text \<open>
  \<^verbatim>\<open>
  export const invalidateProductCache = async (tenantId: string): Promise<void> => {
    const redis = getRedisClient();
    // Delete all product and collection cache keys for this tenant
    const pattern = `${config.redis.keyPrefix}products:${tenantId}:*`;
    const keys = await redis.keys(pattern);
    if (keys.length > 0) { await redis.del(...keys); }
    const collectionPattern = `${config.redis.keyPrefix}collections:${tenantId}:*`;
    const collectionKeys = await redis.keys(collectionPattern);
    if (collectionKeys.length > 0) { await redis.del(...collectionKeys); }
    logger.info({ tenant_id: tenantId }, 'Product caches invalidated');
  };
  \<close>
\<close>

definition delete_matching :: "env \<Rightarrow> state \<Rightarrow> string \<Rightarrow> error + state" where
  "delete_matching env s pattern =
     (case redis_keys env s pattern of
        Inl e \<Rightarrow> Inl e
      | Inr keys \<Rightarrow> if keys \<noteq> [] then redis_del env s keys else Inr s)"

definition invalidateProductCache :: "env \<Rightarrow> state \<Rightarrow> string \<Rightarrow> (error + unit) \<times> state" where
  "invalidateProductCache env s tenantId =
     (if \<not> redis_ready env then (Inl (Error ''Redis client not initialized''), s)
      else case delete_matching env s (keyPrefix env @ ''products:'' @ tenantId @ '':*'') of
        Inl e \<Rightarrow> (Inl e, s)
      | Inr s1 \<Rightarrow>
          (case delete_matching env s1 (keyPrefix env @ ''collections:'' @ tenantId @ '':*'') of
             Inl e \<Rightarrow> (Inl e, s1)
           | Inr s2 \<Rightarrow> (Inr (), s2)))"

subsection \<open>The tenant resolver (tenant-service.ts)\<close>

text \<open>
  \<^verbatim>\<open>
  export const getTenantFromHost = async (host: string): Promise<Tenant | null> => {
    const redis = getRedisClient();
    const cacheKey = `tenant:host:${host}`;
    try {
      const cached = await redis.get(cacheKey);
      if (cached) { return JSON.parse(cached); }
      const pool = getDbPool();
      const result = await pool.query(`SELECT ...`, [host]);
      if (result.rows.length === 0) { return null; }
      const tenant = result.rows[0] as Tenant;
      await redis.setex(cacheKey, 3600, JSON.stringify(tenant));
      return tenant;
    } catch (error) { logger.error(...); throw error; }
  };
  \<close>
\<close>

definition tenant_key :: "string \<Rightarrow> string" where
  "tenant_key host = ''tenant:host:'' @ host"

definition getTenantFromHost :: "env \<Rightarrow> state \<Rightarrow> string \<Rightarrow> (error + tenant option) \<times> state" where
  "getTenantFromHost env s host =
     (if \<not> redis_ready env then (Inl (Error ''Redis client not initialized''), s)
      else case redis_get env s (tenant_key host) of
        Inl e \<Rightarrow> (Inl e, s)
      | Inr cached \<Rightarrow>
          (case truthy cached of
             Some text \<Rightarrow> (parse_tenant (json env) text, s)
           | None \<Rightarrow>
               if \<not> db_ready env then (Inl (Error ''Database pool not initialized''), s)
               else
                 (case query_tenant env host of
                    None \<Rightarrow> (Inl DbError, count_query s)
                  | Some [] \<Rightarrow> (Inr None, count_query s)
                  | Some (tenant # rows) \<Rightarrow>
                      (case redis_setex env (count_query s) (tenant_key host) 3600
                              (stringify_tenant (json env) tenant) of
                         Inl e \<Rightarrow> (Inl e, count_query s)
                       | Inr s' \<Rightarrow> (Inr (Some tenant), s')))))"

text \<open>
  \<^verbatim>\<open>
  export const invalidateTenantCache = async (host: string): Promise<void> => {
    const redis = getRedisClient();
    const cacheKey = `tenant:host:${host}`;
    await redis.del(cacheKey);
  };
  \<close>
\<close>

definition invalidateTenantCache :: "env \<Rightarrow> state \<Rightarrow> string \<Rightarrow> (error + unit) \<times> state" where
  "invalidateTenantCache env s host =
     (if \<not> redis_ready env then (Inl (Error ''Redis client not initialized''), s)
      else case redis_del env s [tenant_key host] of
        Inl e \<Rightarrow> (Inl e, s)
      | Inr s' \<Rightarrow> (Inr (), s'))"

subsection \<open>The theme loader (theme-service.ts)\<close>

text \<open>
  The process-local cache:
  \<^verbatim>\<open>
  const memoryCache = new NodeCache({
    stdTTL: config.cache.themesCacheTTL, checkperiod: 600, useClones: false });
  \<close>
  \<open>set\<close> stores the value with the expiry time \<open>now + stdTTL\<close>, or with none when
  \<open>stdTTL\<close> is 0; \<open>get\<close> misses an entry whose expiry time has come. (\<open>NodeCache\<close>
  also deletes such an entry; the model leaves it in place, where no \<open>get\<close> sees it.)
\<close>

definition memoryCache_get :: "state \<Rightarrow> string \<Rightarrow> theme option" where
  "memoryCache_get s key =
     (case map_of (memoryCache s) key of
        None \<Rightarrow> None
      | Some (v, None) \<Rightarrow> Some v
      | Some (v, Some expiry) \<Rightarrow> if now s < expiry then Some v else None)"

definition memoryCache_set :: "env \<Rightarrow> state \<Rightarrow> string \<Rightarrow> theme \<Rightarrow> state" where
  "memoryCache_set env s key v =
     s\<lparr>memoryCache :=
          AList.update key
            (v, if themesCacheTTL env = 0 then None else Some (now s + themesCacheTTL env))
            (memoryCache s)\<rparr>"

definition memoryCache_del :: "state \<Rightarrow> string \<Rightarrow> state" where
  "memoryCache_del s key = s\<lparr>memoryCache := AList.delete key (memoryCache s)\<rparr>"

text \<open>
  \<^verbatim>\<open>
  const fetchThemeTemplatesFromS3 = async (s3Key: string) => {
    const s3 = getS3Client();
    const templates: Record<string, string> = {};
    const templateFiles = ['index', 'product', 'collection', 'page', 'cart', 'search'];
    for (const templateName of templateFiles) {
      try {
        const command = new GetObjectCommand({
          Bucket: config.s3.bucketName,
          Key: `${s3Key}/templates/${templateName}.liquid` });
        const response = await s3.send(command);
        const body = await response.Body?.transformToString();
        if (body) { templates[templateName] = body; }
      } catch (error: any) {
        // Template might not exist, that's ok
        if (error.name !== 'NoSuchKey') { logger.warn(..., 'Error fetching template'); }
      }
    }
    return templates;
  };
  \<close>
  The \<open>catch\<close> swallows every error of a fetch, whatever its name; only the log differs.
\<close>

definition templateFiles :: "string list" where
  "templateFiles = [''index'', ''product'', ''collection'', ''page'', ''cart'', ''search'']"

definition template_key :: "string \<Rightarrow> string \<Rightarrow> string" where
  "template_key s3Key templateName = s3Key @ ''/templates/'' @ templateName @ ''.liquid''"

fun fetch_loop :: "env \<Rightarrow> string \<Rightarrow> string list \<Rightarrow> (string \<times> string) list \<Rightarrow> (string \<times> string) list" where
  "fetch_loop env s3Key [] templates = templates"
| "fetch_loop env s3Key (templateName # rest) templates =
     fetch_loop env s3Key rest
       (case s3_send env (template_key s3Key templateName) of
          S3Fails name \<Rightarrow> templates
        | S3Body body \<Rightarrow>
            (case truthy body of
               None \<Rightarrow> templates
             | Some text \<Rightarrow> AList.update templateName text templates))"

definition fetchThemeTemplatesFromS3 ::
  "env \<Rightarrow> state \<Rightarrow> string \<Rightarrow> (error + (string \<times> string) list) \<times> state" where
  "fetchThemeTemplatesFromS3 env s s3Key =
     (if \<not> s3_ready env then (Inl (Error ''S3 client not initialized''), s)
      else (Inr (fetch_loop env s3Key templateFiles []),
            s\<lparr>s3_requests := s3_requests s + length templateFiles\<rparr>))"

text \<open>
  \<^verbatim>\<open>
  const loadThemeFromStorage = async (tenantId: string): Promise<Theme | null> => {
    const { getDbPool } = await import('./index');
    const pool = getDbPool();
    const result = await pool.query(`SELECT ...`);
    if (result.rows.length === 0) { return null; }
    const themeData = result.rows[0];
    const templates = await fetchThemeTemplatesFromS3(themeData.s3_key);
    return { ...themeData, templates };
  };
  \<close>
\<close>

definition loadThemeFromStorage :: "env \<Rightarrow> state \<Rightarrow> string \<Rightarrow> (error + theme option) \<times> state" where
  "loadThemeFromStorage env s tenantId =
     (if \<not> db_ready env then (Inl (Error ''Database pool not initialized''), s)
      else case query_theme env tenantId of
        None \<Rightarrow> (Inl DbError, count_query s)
      | Some [] \<Rightarrow> (Inr None, count_query s)
      | Some (themeData # rows) \<Rightarrow>
          (case fetchThemeTemplatesFromS3 env (count_query s) (th_s3_key themeData) of
             (Inl e, s') \<Rightarrow> (Inl e, s')
           | (Inr templates, s') \<Rightarrow>
               (Inr (Some \<lparr>theme_id = th_id themeData, theme_name = th_name themeData,
                           theme_version = th_version themeData,
                           theme_s3_key = th_s3_key themeData,
                           theme_settings = th_settings themeData,
                           theme_templates = Some templates\<rparr>), s')))"

text \<open>
  \<^verbatim>\<open>
  export const getThemeForTenant = async (tenantId: string): Promise<Theme | null> => {
    const cacheKey = `theme:${tenantId}`;
    try {
      const memCached = memoryCache.get<Theme>(cacheKey);
      if (memCached) { return memCached; }
      const redis = getRedisClient();
      const redisCached = await redis.get(cacheKey);
      if (redisCached) {
        const theme = JSON.parse(redisCached) as Theme;
        memoryCache.set(cacheKey, theme);
        return theme;
      }
      const theme = await loadThemeFromStorage(tenantId);
      if (!theme) { return null; }
      memoryCache.set(cacheKey, theme);
      await redis.setex(cacheKey, config.cache.themesCacheTTL, JSON.stringify(theme));
      return theme;
    } catch (error) { logger.error(...); throw error; }
  };
  \<close>
\<close>

definition theme_key :: "string \<Rightarrow> string" where
  "theme_key tenantId = ''theme:'' @ tenantId"

definition getThemeForTenant :: "env \<Rightarrow> state \<Rightarrow> string \<Rightarrow> (error + theme option) \<times> state" where
  "getThemeForTenant env s tenantId =
     (case memoryCache_get s (theme_key tenantId) of
        Some memCached \<Rightarrow> (Inr (Some memCached), s)
      | None \<Rightarrow>
          (if \<not> redis_ready env then (Inl (Error ''Redis client not initialized''), s)
           else
             (case redis_get env s (theme_key tenantId) of
                Inl e \<Rightarrow> (Inl e, s)
              | Inr redisCached \<Rightarrow>
                  (case truthy redisCached of
                     Some text \<Rightarrow>
                       (case parse_theme (json env) text of
                          Inl e \<Rightarrow> (Inl e, s)
                        | Inr theme \<Rightarrow>
                            (Inr (Some theme),
                             memoryCache_set env s (theme_key tenantId) theme))
                   | None \<Rightarrow>
                       (case loadThemeFromStorage env s tenantId of
                          (Inl e, s1) \<Rightarrow> (Inl e, s1)
                        | (Inr None, s1) \<Rightarrow> (Inr None, s1)
                        | (Inr (Some theme), s1) \<Rightarrow>
                            (let s2 = memoryCache_set env s1 (theme_key tenantId) theme in
                             (case redis_setex env s2 (theme_key tenantId)
                                     (themesCacheTTL env)
                                     (stringify_theme (json env) theme) of
                                Inl e \<Rightarrow> (Inl e, s2)
                              | Inr s3 \<Rightarrow> (Inr (Some theme), s3))))))))"

text \<open>
  \<^verbatim>\<open>
  export const invalidateThemeCache = async (tenantId: string): Promise<void> => {
    const cacheKey = `theme:${tenantId}`;
    memoryCache.del(cacheKey);
    const redis = getRedisClient();
    await redis.del(cacheKey);
  };
  \<close>
\<close>

definition invalidateThemeCache :: "env \<Rightarrow> state \<Rightarrow> string \<Rightarrow> (error + unit) \<times> state" where
  "invalidateThemeCache env s tenantId =
     (let s1 = memoryCache_del s (theme_key tenantId) in
      if \<not> redis_ready env then (Inl (Error ''Redis client not initialized''), s1)
      else case redis_del env s1 [theme_key tenantId] of
        Inl e \<Rightarrow> (Inl e, s1)
      | Inr s2 \<Rightarrow> (Inr (), s2))"

subsection \<open>The page renderer (renderer-service.ts)\<close>

text \<open>
  The values bound to the names of a template. \<open>routeData\<close> is typed \<open>any\<close> in the
  source; the model gives it the shape \<open>resolveRoute\<close> builds, with an optional
  \<open>template\<close>. The settings of a theme are kept as their JSON text.
\<close>

datatype binding =
    BText string
  | BProduct product
  | BProducts "product list"
  | BCollection collection_row
  | BCollections "collection_row list"
  | BPage string string
      \<comment> \<open>\<open>{ title, content }\<close>\<close>
  | BShop string string
      \<comment> \<open>\<open>{ name, url }\<close>\<close>
  | BRequest string string
      \<comment> \<open>\<open>{ path, query }\<close>\<close>
  | BSettings string

record route_data =
  rd_type :: string
  rd_template :: "string option"
  rd_data :: "(string \<times> binding) list"

record render_context =
  ctx_tenant :: tenant
  ctx_path :: string
  ctx_query :: string

text \<open>
  \<^verbatim>\<open>
  export const renderPage = async (liquid, theme, routeData, context) => {
    try {
      const templateName = routeData.template || 'index';
      const templateSource = theme.templates?.[templateName];
      if (!templateSource) { throw new Error(`Template ${templateName} not found`); }
      const templateData = {
        ...routeData.data,
        shop: { name: context.tenant.name,
                url: `https://${context.tenant.custom_domain
                                || context.tenant.tenant_id + '.mystore.com'}` },
        request: context.request,
        settings: theme.settings || {},
        template: templateName,
        current_page: context.request.path,
        canonical_url: context.request.path
      };
      const html = await liquid.parseAndRender(templateSource, templateData);
      if (theme.templates?.layout) {
        const layoutHtml = await liquid.parseAndRender(theme.templates.layout, {
          ...templateData, content_for_layout: html });
        return layoutHtml;
      }
      return html;
    } catch (error) { logger.error(...); throw error; }
  };
  \<close>
  \<open>theme.templates\<close> is a plain object: the object literal that
  \<open>fetchThemeTemplatesFromS3\<close> fills, or what \<open>JSON.parse\<close> builds from a cached
  theme. Reading a property of it by name gives its own entry of that name and, where it
  has none, the member of that name of \<open>Object.prototype\<close>: a function, or for
  \<open>__proto__\<close> the prototype object. Such a member is truthy and is not a string; the
  model keeps its name.

  The template engine is the argument \<open>liquid\<close>: its \<open>parseAndRender\<close> gives the
  HTML of a template source under a scope, or fails.
\<close>

datatype template_source =
    Source string
      \<comment> \<open>a string held in the templates object\<close>
  | Inherited string
      \<comment> \<open>the member of \<open>Object.prototype\<close> of this name\<close>

definition object_prototype_names :: "string list" where
  "object_prototype_names =
     [''constructor'', ''__defineGetter__'', ''__defineSetter__'', ''hasOwnProperty'',
      ''__lookupGetter__'', ''__lookupSetter__'', ''isPrototypeOf'', ''propertyIsEnumerable'',
      ''toString'', ''valueOf'', ''__proto__'', ''toLocaleString'']"

type_synonym scope = "(string \<times> binding) list"

type_synonym liquid = "template_source \<Rightarrow> scope \<Rightarrow> error + string"

definition templateName_of :: "route_data \<Rightarrow> string" where
  \<comment> \<open>\<open>routeData.template || 'index'\<close>\<close>
  "templateName_of routeData =
     (case truthy (rd_template routeData) of None \<Rightarrow> ''index'' | Some name \<Rightarrow> name)"

definition own_template :: "theme \<Rightarrow> string \<Rightarrow> string option" where
  \<comment> \<open>the entry of the theme's template map for a name\<close>
  "own_template theme name =
     (case theme_templates theme of None \<Rightarrow> None | Some templates \<Rightarrow> map_of templates name)"

definition template_lookup :: "theme \<Rightarrow> string \<Rightarrow> template_source option" where
  \<comment> \<open>\<open>theme.templates?.[name]\<close>\<close>
  "template_lookup theme name =
     (case theme_templates theme of
        None \<Rightarrow> None
      | Some templates \<Rightarrow>
          (case map_of templates name of
             Some text \<Rightarrow> Some (Source text)
           | None \<Rightarrow>
               if name \<in> set object_prototype_names then Some (Inherited name) else None))"

definition truthy_source :: "template_source option \<Rightarrow> template_source option" where
  \<comment> \<open>a value that passes \<open>if (v)\<close>: neither \<open>undefined\<close> nor the empty string\<close>
  "truthy_source v = (if v = Some (Source []) then None else v)"

definition templateData_of :: "theme \<Rightarrow> route_data \<Rightarrow> render_context \<Rightarrow> scope" where
  "templateData_of theme routeData context =
     fold (\<lambda>(k, v). AList.update k v)
       [(''shop'', BShop (t_name (ctx_tenant context))
            (''https://'' @
              (case truthy (t_custom_domain (ctx_tenant context)) of
                 Some domain \<Rightarrow> domain
               | None \<Rightarrow> t_tenant_id (ctx_tenant context) @ ''.mystore.com''))),
        (''request'', BRequest (ctx_path context) (ctx_query context)),
        (''settings'', BSettings (case truthy (theme_settings theme) of
                                    None \<Rightarrow> ''{}'' | Some text \<Rightarrow> text)),
        (''template'', BText (templateName_of routeData)),
        (''current_page'', BText (ctx_path context)),
        (''canonical_url'', BText (ctx_path context))]
       (rd_data routeData)"

definition renderPage :: "liquid \<Rightarrow> theme \<Rightarrow> route_data \<Rightarrow> render_context \<Rightarrow> error + string" where
  "renderPage liquid theme routeData context =
     (let templateName = templateName_of routeData in
      (case truthy_source (template_lookup theme templateName) of
         None \<Rightarrow> Inl (Error (''Template '' @ templateName @ '' not found''))
       | Some templateSource \<Rightarrow>
           (let templateData = templateData_of theme routeData context in
            (case liquid templateSource templateData of
               Inl e \<Rightarrow> Inl e
             | Inr html \<Rightarrow>
                 (case truthy_source (template_lookup theme ''layout'') of
                    None \<Rightarrow> Inr html
                  | Some layout \<Rightarrow>
                      liquid layout
                        (AList.update ''content_for_layout'' (BText html) templateData))))))"

subsection \<open>The route resolver (part_000, routes/storefront.ts)\<close>

text \<open>
  \<open>path.match(/^\/products\/([a-z0-9-]+)$/)\<close> and its two siblings: the path is the
  prefix followed by one or more characters of \<open>[a-z0-9-]\<close> and nothing else; the
  result is the captured handle.
\<close>

definition match_handle :: "string \<Rightarrow> string \<Rightarrow> string option" where
  "match_handle pre path =
     (let rest = drop (length pre) path in
      if take (length pre) path = pre \<and> rest \<noteq> [] \<and> list_all is_handle_char rest
      then Some rest else None)"

text \<open>
  \<^verbatim>\<open>
  const resolveRoute = async (path: string, tenantId: string) => {
    // Homepage
    if (path === '/' || path === '') {
      const collections = await getCollections(tenantId, { limit: 3 });
      const featuredProducts = await getProducts(tenantId, { featured: true, limit: 8 });
      return { type: 'home', template: 'index',
               data: { collections, featured_products: featuredProducts } };
    }
    // Product page: /products/:handle
    const productMatch = path.match(/^\/products\/([a-z0-9-]+)$/);
    if (productMatch) {
      const handle = productMatch[1];
      const products = await getProducts(tenantId, { handle, limit: 1 });
      const product = products[0];
      if (!product) { throw new Error('Product not found'); }
      return { type: 'product', template: 'product', data: { product } };
    }
    // Collection page: /collections/:handle
    const collectionMatch = path.match(/^\/collections\/([a-z0-9-]+)$/);
    if (collectionMatch) {
      const handle = collectionMatch[1];
      const collections = await getCollections(tenantId, { handle, limit: 1 });
      const collection = collections[0];
      if (!collection) { throw new Error('Collection not found'); }
      const products = await getProducts(tenantId, { collection_id: collection.id });
      return { type: 'collection', template: 'collection',
               data: { collection, products } };
    }
    // Static pages: /pages/:handle
    const pageMatch = path.match(/^\/pages\/([a-z0-9-]+)$/);
    if (pageMatch) {
      const handle = pageMatch[1];
      // TODO: Fetch page content from page-service
      return { type: 'page', template: 'page',
               data: { page: { title: handle, content: '<p>Page content here</p>' } } };
    }
    // 404
    throw new Error('Page not found');
  };
  \<close>
\<close>

definition home_route :: "env \<Rightarrow> state \<Rightarrow> string \<Rightarrow> (error + route_data) \<times> state" where
  "home_route env s tenantId =
     (case getCollections env s tenantId (no_options\<lparr>q_limit := Some 3\<rparr>) of
        (Inl e, s1) \<Rightarrow> (Inl e, s1)
      | (Inr collections, s1) \<Rightarrow>
          (case getProducts env s1 tenantId
                  (no_options\<lparr>q_featured := Some True, q_limit := Some 8\<rparr>) of
             (Inl e, s2) \<Rightarrow> (Inl e, s2)
           | (Inr featuredProducts, s2) \<Rightarrow>
               (Inr \<lparr>rd_type = ''home'', rd_template = Some ''index'',
                     rd_data = [(''collections'', BCollections collections),
                                (''featured_products'', BProducts featuredProducts)]\<rparr>, s2)))"

definition product_route :: "env \<Rightarrow> state \<Rightarrow> string \<Rightarrow> string \<Rightarrow> (error + route_data) \<times> state" where
  "product_route env s tenantId handle =
     (case getProducts env s tenantId (no_options\<lparr>q_handle := Some handle, q_limit := Some 1\<rparr>) of
        (Inl e, s1) \<Rightarrow> (Inl e, s1)
      | (Inr [], s1) \<Rightarrow> (Inl (Error ''Product not found''), s1)
      | (Inr (product # rest), s1) \<Rightarrow>
          (Inr \<lparr>rd_type = ''product'', rd_template = Some ''product'',
                rd_data = [(''product'', BProduct product)]\<rparr>, s1))"

definition collection_route :: "env \<Rightarrow> state \<Rightarrow> string \<Rightarrow> string \<Rightarrow> (error + route_data) \<times> state" where
  "collection_route env s tenantId handle =
     (case getCollections env s tenantId
             (no_options\<lparr>q_handle := Some handle, q_limit := Some 1\<rparr>) of
        (Inl e, s1) \<Rightarrow> (Inl e, s1)
      | (Inr [], s1) \<Rightarrow> (Inl (Error ''Collection not found''), s1)
      | (Inr (collection # rest), s1) \<Rightarrow>
          (case getProducts env s1 tenantId
                  (no_options\<lparr>q_collection_id := Some (c_id collection)\<rparr>) of
             (Inl e, s2) \<Rightarrow> (Inl e, s2)
           | (Inr products, s2) \<Rightarrow>
               (Inr \<lparr>rd_type = ''collection'', rd_template = Some ''collection'',
                     rd_data = [(''collection'', BCollection collection),
                                (''products'', BProducts products)]\<rparr>, s2)))"

definition page_route :: "string \<Rightarrow> route_data" where
  "page_route handle =
     \<lparr>rd_type = ''page'', rd_template = Some ''page'',
      rd_data = [(''page'', BPage handle ''<p>Page content here</p>'')]\<rparr>"

definition resolveRoute :: "env \<Rightarrow> state \<Rightarrow> string \<Rightarrow> string \<Rightarrow> (error + route_data) \<times> state" where
  "resolveRoute env s path tenantId =
     (if path = ''/'' \<or> path = [] then home_route env s tenantId
      else
        (case match_handle ''/products/'' path of
           Some handle \<Rightarrow> product_route env s tenantId handle
         | None \<Rightarrow>
             (case match_handle ''/collections/'' path of
                Some handle \<Rightarrow> collection_route env s tenantId handle
              | None \<Rightarrow>
                  (case match_handle ''/pages/'' path of
                     Some handle \<Rightarrow> (Inr (page_route handle), s)
                   | None \<Rightarrow> (Inl (Error ''Page not found''), s)))))"

subsection \<open>JavaScript values in block documents\<close>










subsection \<open>The block renderer of the first stand-alone server (part_007)\<close>








text \<open>
  The second stand-alone server (part_008) has a \<open>renderBlock\<close> of its own, for the
  types \<open>hero\<close>, \<open>text\<close>, \<open>image\<close>, \<open>products\<close>, \<open>video\<close> and \<open>gallery\<close>:
  \<^verbatim>\<open>
  function renderBlock(block, editable = false) {
    ...
      case 'products':
        ...
        try {
          const productResult = await pool.query(..., [tenantId, 'active', productLimit]);
  \<close>
  The function is not declared \<open>async\<close>, and \<open>await\<close> outside an \<open>async\<close> function is
  a syntax error: the script is refused when it is loaded and no function of it ever
  runs. It has no behaviour to embed. The block renderer of the properties below is the
  one of part_007.
\<close>

subsection \<open>Cache keys and patterns\<close>

text \<open>
  The service-oriented variant of the catalog (part_004, \<open>getProductsFromService\<close>)
  caches its listings in the same Redis under a key namespace of its own:
  \<^verbatim>\<open>
  const cacheKey = `storefront:products:${tenantId}:${JSON.stringify(options)}`;
  \<close>
  The second argument is the JSON text of the options.
\<close>

definition storefront_products_key :: "string \<Rightarrow> string \<Rightarrow> string" where
  "storefront_products_key tenantId optionsJson =
     ''storefront:products:'' @ tenantId @ '':'' @ optionsJson"

text \<open>A text without the metacharacters of a glob pattern matches itself only.\<close>

definition glob_literal :: "string \<Rightarrow> bool" where
  "glob_literal p = (\<forall>c \<in> set p. c \<noteq> CHR ''*'' \<and> c \<noteq> CHR ''?'' \<and> c \<noteq> CHR ''['' \<and> c \<noteq> CHR 0x5C)"

subsection \<open>An example deployment\<close>

text \<open>
  One tenant, \<open>acme\<close>, mapped from the host \<open>shop.acme.test\<close>, with one product, one
  collection and a main theme of which the blob store holds the \<open>index\<close> and \<open>page\<close>
  templates, refuses access to \<open>product\<close> and has no other. The client's key prefix
  is \<open>sf:\<close>. The stand-in for JSON writes a value as a short text that tells the values
  of the example apart and reads back the one tenant and the one theme of the example.
  The theorems below run the model on it.
\<close>

definition demo_tenant :: tenant where
  "demo_tenant = \<lparr>t_id = ''1'', t_tenant_id = ''acme'', t_name = ''Acme'',
     t_custom_domain = None, t_status = ''active''\<rparr>"

definition demo_product :: product where
  "demo_product = \<lparr>p_id = ''p1'', p_title = ''Blue Shirt'', p_handle = ''blue-shirt'',
     p_status = ''active'', p_created_at = 1\<rparr>"

definition demo_schema :: tenant_schema where
  "demo_schema =
     \<lparr>products_table = [demo_product],
      collections_table =
        [\<lparr>c_id = ''c1'', c_title = ''Summer'', c_handle = ''summer'', c_published = True,
          c_created_at = 1\<rparr>],
      collection_products = [(''c1'', ''p1'')],
      themes_table =
        [\<lparr>th_id = ''th1'', th_name = ''Dawn'', th_version = ''1.0'',
          th_s3_key = ''themes/acme/1.0'', th_settings = None, th_role = ''main''\<rparr>]\<rparr>"

definition demo_theme :: theme where
  "demo_theme =
     \<lparr>theme_id = ''th1'', theme_name = ''Dawn'', theme_version = ''1.0'',
      theme_s3_key = ''themes/acme/1.0'', theme_settings = None,
      theme_templates = Some [(''index'', ''<h1>{{ shop.name }}</h1>''),
                              (''page'', ''<h1>{{ page.title }}</h1>'')]\<rparr>"

definition demo_json :: json_lib where
  "demo_json =
     \<lparr>stringify_options = (\<lambda>q.
        ''{'' @ (case q_handle q of None \<Rightarrow> [] | Some h \<Rightarrow> ''handle:'' @ h @ '','')
            @ (case q_collection_id q of None \<Rightarrow> [] | Some c \<Rightarrow> ''collection_id:'' @ c @ '','')
            @ (case q_featured q of None \<Rightarrow> [] | Some b \<Rightarrow> ''featured,'')
            @ (case q_limit q of None \<Rightarrow> [] | Some n \<Rightarrow> ''limit:'' @ replicate n (CHR ''I''))
            @ ''}''),
      stringify_products = (\<lambda>ps. ''['' @ concat (map (\<lambda>p. p_handle p @ '','') ps) @ '']''),
      parse_products = (\<lambda>text. Inl JsonSyntaxError),
      stringify_collections = (\<lambda>cs. ''['' @ concat (map (\<lambda>c. c_handle c @ '','') cs) @ '']''),
      parse_collections = (\<lambda>text. Inl JsonSyntaxError),
      stringify_tenant = (\<lambda>t. ''{tenant_id:'' @ t_tenant_id t @ ''}''),
      parse_tenant = (\<lambda>text. if text = ''{tenant_id:acme}'' then Inr (Some demo_tenant)
                              else Inl JsonSyntaxError),
      stringify_theme = (\<lambda>t. ''{id:'' @ theme_id t @ ''}''),
      parse_theme = (\<lambda>text. if text = ''{id:th1}'' then Inr demo_theme
                             else Inl JsonSyntaxError)\<rparr>"

definition demo_env :: env where
  "demo_env =
     \<lparr>keyPrefix = ''sf:'', themesCacheTTL = 3600, dataCacheTTL = 300,
      redis_ready = True, db_ready = True, s3_ready = True,
      redis_fails = (\<lambda>cmd. False), db_fails = False,
      platform_tenants = [demo_tenant],
      platform_domain_mapping =
        [\<lparr>dm_domain = ''shop.acme.test'', dm_tenant_id = ''acme'', dm_verified = True\<rparr>],
      tenant_schemas = (\<lambda>t. if t = ''acme'' then Some demo_schema else None),
      s3_send = (\<lambda>key.
        if key = ''themes/acme/1.0/templates/index.liquid''
          then S3Body (Some ''<h1>{{ shop.name }}</h1>'')
        else if key = ''themes/acme/1.0/templates/page.liquid''
          then S3Body (Some ''<h1>{{ page.title }}</h1>'')
        else if key = ''themes/acme/1.0/templates/product.liquid''
          then S3Fails ''AccessDenied''
        else S3Fails ''NoSuchKey''),
      json = demo_json\<rparr>"

definition demo_state :: state where
  "demo_state = \<lparr>now = 1000, redis = [], memoryCache = [], db_queries = 0, s3_requests = 0\<rparr>"

text \<open>The same deployment after the domain mapping of the host has been removed.\<close>

definition demo_env_unmapped :: env where
  "demo_env_unmapped = demo_env\<lparr>platform_domain_mapping := []\<rparr>"

text \<open>
  A template engine that returns a template source as it is, and refuses what is not a
  string.
\<close>

definition demo_liquid :: liquid where
  "demo_liquid templateSource templateData =
     (case templateSource of
        Source text \<Rightarrow> Inr text
      | Inherited name \<Rightarrow> Inl (LiquidError ''template is not a string''))"

definition demo_context :: render_context where
  "demo_context = \<lparr>ctx_tenant = demo_tenant, ctx_path = ''/'', ctx_query = []\<rparr>"

section \<open>Properties\<close>

subsection \<open>The handle filter\<close>

lemma set_replace_runs: "c \<in> set (replace_runs b s) \<Longrightarrow> is_handle_char c"
  by (induction s arbitrary: b) (auto simp: is_handle_char_def split: if_splits)

lemma set_strip: "set (strip_edge_hyphens s) \<subseteq> set s"
  by (auto simp: strip_edge_hyphens_def Let_def split: list.splits if_splits dest: in_set_butlastD)

lemma filter_replace_runs: "filter is_lower_alnum (replace_runs b s) = filter is_lower_alnum s"
proof -
  have "\<not> is_lower_alnum (CHR ''-'')" by (simp add: is_lower_alnum_def)
  then show ?thesis by (induction s arbitrary: b) auto
qed

lemma sh_replace_runs:
  "single_hyphens (replace_runs b s) \<and> (b \<longrightarrow> \<not> prefix ''-'' (replace_runs b s))"
proof (induction s arbitrary: b)
  case Nil
  then show ?case by simp
next
  case (Cons c cs)
  have nh: "is_lower_alnum c \<Longrightarrow> c \<noteq> CHR ''-''" for c by (auto simp: is_lower_alnum_def)
  show ?case
  proof (cases "is_lower_alnum c")
    case True
    then show ?thesis using Cons[of False] nh[OF True]
      by (cases "replace_runs False cs") auto
  next
    case False
    then show ?thesis using Cons[of True]
      by (cases "replace_runs True cs") auto
  qed
qed

lemma sh_tl: "single_hyphens s \<Longrightarrow> single_hyphens (tl s)"
  by (induction s rule: single_hyphens.induct) auto

lemma sh_butlast: "single_hyphens s \<Longrightarrow> single_hyphens (butlast s)"
  by (induction s rule: single_hyphens.induct) (auto split: if_splits)

lemma sh_hd: "single_hyphens (CHR ''-'' # s) \<Longrightarrow> \<not> prefix ''-'' s"
  by (cases s) auto

lemma suffix_single: "suffix [x] t \<longleftrightarrow> t \<noteq> [] \<and> last t = x"
  by (cases t rule: rev_cases) (auto simp: suffix_def)

lemma sh_last_aux: "single_hyphens s \<Longrightarrow> s \<noteq> [] \<Longrightarrow> last s = CHR ''-'' \<Longrightarrow> butlast s \<noteq> [] \<Longrightarrow> last (butlast s) \<noteq> CHR ''-''"
  by (induction s rule: single_hyphens.induct) (auto split: if_splits)

lemma sh_last: "single_hyphens s \<Longrightarrow> s \<noteq> [] \<Longrightarrow> last s = CHR ''-'' \<Longrightarrow> \<not> suffix ''-'' (butlast s)"
  using sh_last_aux by (auto simp: suffix_single)

lemma sh_sublist: "single_hyphens s \<Longrightarrow> \<not> sublist ''--'' s"
  by (induction s rule: single_hyphens.induct) (auto simp: sublist_Cons_right prefix_Cons)

lemma not_alnum_hyphen: "\<not> is_lower_alnum (CHR ''-'')"
  by (simp add: is_lower_alnum_def)

lemma prefix_single: "prefix [x] t \<longleftrightarrow> t \<noteq> [] \<and> hd t = x"
  by (cases t) auto

lemma strip_props:
  assumes sh: "single_hyphens s"
  shows "single_hyphens (strip_edge_hyphens s)"
    and "\<not> prefix ''-'' (strip_edge_hyphens s)"
    and "\<not> suffix ''-'' (strip_edge_hyphens s)"
    and "filter is_lower_alnum (strip_edge_hyphens s) = filter is_lower_alnum s"
proof -
  define s1 where "s1 = (case s of [] \<Rightarrow> [] | c # cs \<Rightarrow> if c = CHR ''-'' then cs else s)"
  define r where "r = (if s1 \<noteq> [] \<and> last s1 = CHR ''-'' then butlast s1 else s1)"
  have r: "strip_edge_hyphens s = r"
    by (simp add: strip_edge_hyphens_def s1_def r_def)
  have sh1: "single_hyphens s1"
    using sh sh_tl[OF sh] by (auto simp: s1_def split: list.splits)
  have np1: "\<not> prefix ''-'' s1"
    using sh sh_hd by (auto simp: s1_def prefix_single split: list.splits)
  have f1: "filter is_lower_alnum s1 = filter is_lower_alnum s"
    using not_alnum_hyphen by (auto simp: s1_def split: list.splits)
  show "single_hyphens (strip_edge_hyphens s)"
    using sh1 sh_butlast[OF sh1] by (simp add: r r_def)
  show "\<not> prefix ''-'' (strip_edge_hyphens s)"
  proof (cases "s1 \<noteq> [] \<and> last s1 = CHR ''-''")
    case True
    have "prefix (butlast s1) s1" by (simp add: prefixeq_butlast)
    then show ?thesis using np1 True by (auto simp: r r_def dest: prefix_order.trans)
  next
    case False
    then show ?thesis using np1 by (auto simp: r r_def)
  qed
  show "\<not> suffix ''-'' (strip_edge_hyphens s)"
  proof (cases "s1 \<noteq> [] \<and> last s1 = CHR ''-''")
    case True
    then show ?thesis using sh_last[OF sh1] by (simp add: r r_def)
  next
    case False
    then show ?thesis by (auto simp: r r_def suffix_single)
  qed
  show "filter is_lower_alnum (strip_edge_hyphens s) = filter is_lower_alnum s"
  proof (cases "s1 \<noteq> [] \<and> last s1 = CHR ''-''")
    case True
    then have "s1 = butlast s1 @ ''-''" by (metis append_butlast_last_id)
    then have "filter is_lower_alnum s1 = filter is_lower_alnum (butlast s1)"
      using not_alnum_hyphen by (metis append_Nil2 filter.simps(1) filter.simps(2) filter_append)
    then show ?thesis using True f1 by (simp add: r r_def)
  next
    case False
    then show ?thesis using f1 by (auto simp: r r_def)
  qed
qed

lemma words_nonempty_head: "is_lower_alnum c \<Longrightarrow> alnum_words (c # cs) \<noteq> []"
  by (simp split: list.splits)

lemma words_empty_iff: "alnum_words t = [] \<longleftrightarrow> (\<forall>c \<in> set t. \<not> is_lower_alnum c)"
proof (induction t)
  case Nil
  show ?case by simp
next
  case (Cons c cs)
  show ?case
  proof (cases "is_lower_alnum c")
    case True
    then show ?thesis using words_nonempty_head[OF True, of cs] by simp
  next
    case False
    then show ?thesis using Cons.IH by simp
  qed
qed

lemma words_empty_last: "alnum_words t = [] \<Longrightarrow> t \<noteq> [] \<Longrightarrow> \<not> is_lower_alnum (last t)"
  by (simp add: words_empty_iff)

lemma hyphen_join_Cons: "hyphen_join ((c # w) # ws) = c # hyphen_join (w # ws)"
  by (cases ws) simp_all

lemma hyphen_join_single:
  "hyphen_join ([c] # ws) = c # (if ws = [] then [] else CHR ''-'' # hyphen_join ws)"
  by (cases ws) simp_all

lemma trailing_hyphen_Cons:
  "cs \<noteq> [] \<Longrightarrow> alnum_words cs \<noteq> [] \<Longrightarrow> trailing_hyphen (c # cs) = trailing_hyphen cs"
  by (simp add: trailing_hyphen_def split: list.splits)

lemma replace_runs_words:
  "replace_runs False t =
     (if t \<noteq> [] \<and> \<not> is_lower_alnum (hd t) then ''-'' else [])
       @ hyphen_join (alnum_words t) @ trailing_hyphen t
   \<and> replace_runs True t = hyphen_join (alnum_words t) @ trailing_hyphen t"
proof (induction t)
  case Nil
  then show ?case by (simp add: trailing_hyphen_def)
next
  case (Cons c cs)
  note IH = Cons.IH
  show ?case
  proof (cases "is_lower_alnum c")
    case False
    have w: "alnum_words (c # cs) = alnum_words cs" using False by simp
    have t: "trailing_hyphen (c # cs) = trailing_hyphen cs"
      using False words_empty_iff[of cs]
      by (auto simp: trailing_hyphen_def w simp del: alnum_words.simps)
    show ?thesis using False IH by (simp add: w t del: alnum_words.simps)
  next
    case True
    show ?thesis
    proof (cases "cs \<noteq> [] \<and> is_lower_alnum (hd cs)")
      case hT: True
      then have ne: "alnum_words cs \<noteq> []" by (auto simp: words_empty_iff)
      then obtain w ws where w: "alnum_words cs = w # ws" by (cases "alnum_words cs") auto
      have a: "alnum_words (c # cs) = (c # w) # ws" using True hT w by simp
      have t: "trailing_hyphen (c # cs) = trailing_hyphen cs"
        using trailing_hyphen_Cons hT ne by blast
      have r: "replace_runs False cs = hyphen_join (w # ws) @ trailing_hyphen cs"
        using IH hT w by simp
      show ?thesis using True r by (simp add: a t hyphen_join_Cons del: alnum_words.simps)
    next
      case hF: False
      have a: "alnum_words (c # cs) = [c] # alnum_words cs" using True hF by auto
      show ?thesis
      proof (cases "cs = []")
        case True
        then show ?thesis using \<open>is_lower_alnum c\<close> by (simp add: trailing_hyphen_def)
      next
        case cne: False
        then have l: "\<not> is_lower_alnum (hd cs)" using hF by simp
        have r: "replace_runs False cs = ''-'' @ hyphen_join (alnum_words cs) @ trailing_hyphen cs"
          using IH cne l by simp
        show ?thesis
        proof (cases "alnum_words cs = []")
          case True
          then have "trailing_hyphen cs = []" by (simp add: trailing_hyphen_def)
          moreover have "trailing_hyphen (c # cs) = ''-''"
            using True cne words_empty_last[OF True cne]
            by (simp add: trailing_hyphen_def a del: alnum_words.simps)
          ultimately show ?thesis using \<open>is_lower_alnum c\<close> r True
            by (simp add: a del: alnum_words.simps)
        next
          case False
          have t: "trailing_hyphen (c # cs) = trailing_hyphen cs"
            using trailing_hyphen_Cons cne False by blast
          show ?thesis using \<open>is_lower_alnum c\<close> r False
            by (simp add: a t hyphen_join_single del: alnum_words.simps)
        qed
      qed
    qed
  qed
qed

lemma words_alnum:
  "w \<in> set (alnum_words t) \<Longrightarrow> w \<noteq> [] \<and> (\<forall>c \<in> set w. is_lower_alnum c)"
proof (induction t arbitrary: w)
  case Nil
  then show ?case by simp
next
  case (Cons c cs)
  note IH = Cons.IH and prems = Cons.prems
  show ?case
  proof (cases "is_lower_alnum c")
    case False
    then show ?thesis using IH prems by simp
  next
    case True
    show ?thesis
    proof (cases "cs \<noteq> [] \<and> is_lower_alnum (hd cs)")
      case hT: True
      then have "alnum_words cs \<noteq> []" by (auto simp: words_empty_iff)
      then obtain v vs where v: "alnum_words cs = v # vs" by (cases "alnum_words cs") auto
      have a: "alnum_words (c # cs) = (c # v) # vs" using True hT v by simp
      have "w = c # v \<or> w \<in> set vs" using prems unfolding a by simp
      then show ?thesis using IH[of v] IH[of w] v True by auto
    next
      case hF: False
      have a: "alnum_words (c # cs) = [c] # alnum_words cs" using True hF by auto
      have "w = [c] \<or> w \<in> set (alnum_words cs)" using prems unfolding a by simp
      then show ?thesis using IH[of w] True by auto
    qed
  qed
qed

lemma hyphen_join_edges:
  "\<forall>w \<in> set ws. w \<noteq> [] \<and> (\<forall>c \<in> set w. is_lower_alnum c) \<Longrightarrow> ws \<noteq> [] \<Longrightarrow>
     hyphen_join ws \<noteq> [] \<and> is_lower_alnum (hd (hyphen_join ws))
       \<and> is_lower_alnum (last (hyphen_join ws))"
proof (induction ws rule: hyphen_join.induct)
  case 1
  then show ?case by simp
next
  case (2 w)
  then show ?case by (cases w) auto
next
  case (3 w v ws)
  then have "hyphen_join (v # ws) \<noteq> []" and "is_lower_alnum (last (hyphen_join (v # ws)))"
    by auto
  moreover have "w \<noteq> []" "is_lower_alnum (hd w)" using 3(2) by (cases w; simp)+
  ultimately show ?case by simp
qed

lemma strip_words:
  "strip_edge_hyphens (replace_runs False t) = hyphen_join (alnum_words t)"
proof (cases "alnum_words t = []")
  case True
  then have "trailing_hyphen t = []" by (simp add: trailing_hyphen_def)
  then have "replace_runs False t = [] \<or> replace_runs False t = ''-''"
    using replace_runs_words[of t] True by (simp split: if_splits)
  then show ?thesis using True by (auto simp: strip_edge_hyphens_def)
next
  case False
  let ?j = "hyphen_join (alnum_words t)"
  have e: "?j \<noteq> []" "is_lower_alnum (hd ?j)" "is_lower_alnum (last ?j)"
    using hyphen_join_edges[of "alnum_words t"] words_alnum[of _ t] False by auto
  have h: "hd ?j \<noteq> CHR ''-''" "last ?j \<noteq> CHR ''-''"
    using e not_alnum_hyphen by auto
  obtain a as where j: "?j = a # as" using e(1) by (cases ?j) auto
  have a: "a \<noteq> CHR ''-''" using h(1) j by simp
  have la: "last (a # as) \<noteq> CHR ''-''" using h(2) j by simp
  have s1: "(case (if t \<noteq> [] \<and> \<not> is_lower_alnum (hd t) then ''-'' else [])
                     @ ?j @ trailing_hyphen t of
               [] \<Rightarrow> []
             | c # cs \<Rightarrow>
                 if c = CHR ''-'' then cs
                 else (if t \<noteq> [] \<and> \<not> is_lower_alnum (hd t) then ''-'' else [])
                        @ ?j @ trailing_hyphen t)
             = ?j @ trailing_hyphen t"
    using a by (simp add: j)
  have s2: "(if ?j @ trailing_hyphen t \<noteq> [] \<and> last (?j @ trailing_hyphen t) = CHR ''-''
             then butlast (?j @ trailing_hyphen t)
             else ?j @ trailing_hyphen t) = ?j"
    using la e(1) by (auto simp: j trailing_hyphen_def)
  show ?thesis
    unfolding strip_edge_hyphens_def Let_def replace_runs_words[THEN conjunct1] s1 s2
    by (rule refl)
qed

text \<open>
  C9. \<open>handleize\<close> maps "My Cool Product!!" to "my-cool-product". For every input the
  output is the words of the lower-cased input (its maximal runs of letters and digits)
  joined by single hyphens. So it consists of lowercase letters, digits and hyphens only,
  has no two hyphens next to each other and neither starts nor ends with a hyphen; its
  letters and digits are those of the lower-cased input, in the same order.
\<close>

theorem handleize_ok:
  "handleize ''My Cool Product!!'' = ''my-cool-product'' \<and>
   handleize str = handleize_spec str \<and>
   (\<forall>c \<in> set (handleize str). is_handle_char c) \<and>
   \<not> sublist ''--'' (handleize str) \<and>
   \<not> prefix ''-'' (handleize str) \<and>
   \<not> suffix ''-'' (handleize str) \<and>
   filter is_lower_alnum (handleize str) = filter is_lower_alnum (toLowerCase str)"
proof -
  let ?t = "replace_runs False (toLowerCase str)"
  have sh: "single_hyphens ?t" using sh_replace_runs by blast
  have 1: "handleize ''My Cool Product!!'' = ''my-cool-product''" by code_simp
  have 2: "handleize str = handleize_spec str"
    by (simp add: handleize_def handleize_spec_def strip_words)
  have 3: "\<forall>c \<in> set (handleize str). is_handle_char c"
    using set_strip[of ?t] set_replace_runs by (auto simp: handleize_def)
  have 4: "\<not> sublist ''--'' (handleize str)"
    using strip_props(1)[OF sh] sh_sublist by (simp add: handleize_def)
  have 5: "\<not> prefix ''-'' (handleize str)"
    using strip_props(2)[OF sh] by (simp add: handleize_def)
  have 6: "\<not> suffix ''-'' (handleize str)"
    using strip_props(3)[OF sh] by (simp add: handleize_def)
  have 7: "filter is_lower_alnum (handleize str) = filter is_lower_alnum (toLowerCase str)"
    using strip_props(4)[OF sh] filter_replace_runs by (simp add: handleize_def)
  show ?thesis
    by (rule conjI[OF 1 conjI[OF 2 conjI[OF 3 conjI[OF 4 conjI[OF 5 conjI[OF 6 7]]]]]])
qed

theorem handleize_ok_witness:
  "handleize ''  Blue -- Shirt 2 '' = ''blue-shirt-2'' \<and>
   handleize_spec ''  Blue -- Shirt 2 '' = ''blue-shirt-2'' \<and>
   list_all is_handle_char (handleize ''  Blue -- Shirt 2 '') \<and>
   \<not> sublist ''--'' (handleize ''  Blue -- Shirt 2 '') \<and>
   filter is_lower_alnum (handleize ''  Blue -- Shirt 2 '') = ''blueshirt2''"
proof -
  have e: "handleize ''  Blue -- Shirt 2 '' = ''blue-shirt-2''" by code_simp
  have f: "filter is_lower_alnum (toLowerCase ''  Blue -- Shirt 2 '') = ''blueshirt2''" by code_simp
  note h = handleize_ok[of "''  Blue -- Shirt 2 ''"]
  have 1: "handleize_spec ''  Blue -- Shirt 2 '' = ''blue-shirt-2''"
    by (rule trans[OF h[THEN conjunct2, THEN conjunct1, symmetric] e])
  have 2: "list_all is_handle_char (handleize ''  Blue -- Shirt 2 '')"
    using h[THEN conjunct2, THEN conjunct2, THEN conjunct1] by (simp only: list_all_iff)
  have 3: "\<not> sublist ''--'' (handleize ''  Blue -- Shirt 2 '')"
    by (rule h[THEN conjunct2, THEN conjunct2, THEN conjunct2, THEN conjunct1])
  have 4: "filter is_lower_alnum (handleize ''  Blue -- Shirt 2 '') = ''blueshirt2''"
    by (rule trans[OF h[THEN conjunct2, THEN conjunct2, THEN conjunct2, THEN conjunct2,
                        THEN conjunct2, THEN conjunct2] f])
  show ?thesis by (rule conjI[OF e conjI[OF 1 conjI[OF 2 conjI[OF 3 4]]]])
qed

subsection \<open>The route resolver\<close>

lemma match_handle_Some:
  "match_handle pre path = Some h \<longleftrightarrow> path = pre @ h \<and> h \<noteq> [] \<and> list_all is_handle_char h"
proof
  assume "match_handle pre path = Some h"
  then have t: "take (length pre) path = pre" and h: "h = drop (length pre) path"
    and ne: "h \<noteq> []" and ok: "list_all is_handle_char h"
    by (auto simp: match_handle_def Let_def split: if_splits)
  have "path = take (length pre) path @ drop (length pre) path" by simp
  then show "path = pre @ h \<and> h \<noteq> [] \<and> list_all is_handle_char h"
    using t h ne ok by simp
next
  assume "path = pre @ h \<and> h \<noteq> [] \<and> list_all is_handle_char h"
  then show "match_handle pre path = Some h"
    by (simp add: match_handle_def)
qed

lemma match_handle_None:
  "match_handle pre path = None \<longleftrightarrow> (\<forall>h. path = pre @ h \<longrightarrow> h = [] \<or> \<not> list_all is_handle_char h)"
  by (metis match_handle_Some not_Some_eq)

lemma the_patterns_differ:
  "''/products/'' @ a \<noteq> ''/collections/'' @ b"
  "''/products/'' @ a \<noteq> ''/pages/'' @ b"
  "''/collections/'' @ a \<noteq> ''/products/'' @ b"
  "''/collections/'' @ a \<noteq> ''/pages/'' @ b"
  "''/pages/'' @ a \<noteq> ''/products/'' @ b"
  "''/pages/'' @ a \<noteq> ''/collections/'' @ b"
  by simp_all

lemma not_root:
  "''/products/'' @ a \<noteq> ''/''" "''/collections/'' @ a \<noteq> ''/''" "''/pages/'' @ a \<noteq> ''/''"
  by simp_all

lemma resolve_products:
  assumes "h \<noteq> []" "list_all is_handle_char h"
  shows "resolveRoute env s (''/products/'' @ h) tid = product_route env s tid h"
proof -
  have "match_handle ''/products/'' (''/products/'' @ h) = Some h"
    using assms by (simp add: match_handle_Some)
  then show ?thesis by (simp add: resolveRoute_def)
qed

lemma resolve_collections:
  assumes "h \<noteq> []" "list_all is_handle_char h"
  shows "resolveRoute env s (''/collections/'' @ h) tid = collection_route env s tid h"
proof -
  have "match_handle ''/collections/'' (''/collections/'' @ h) = Some h"
    using assms by (simp add: match_handle_Some)
  moreover have "match_handle ''/products/'' (''/collections/'' @ h) = None"
    by (simp add: match_handle_None)
  ultimately show ?thesis by (simp add: resolveRoute_def)
qed

lemma resolve_pages:
  assumes "h \<noteq> []" "list_all is_handle_char h"
  shows "resolveRoute env s (''/pages/'' @ h) tid = (Inr (page_route h), s)"
proof -
  have "match_handle ''/pages/'' (''/pages/'' @ h) = Some h"
    using assms by (simp add: match_handle_Some)
  moreover have "match_handle ''/products/'' (''/pages/'' @ h) = None"
    by (simp add: match_handle_None)
  moreover have "match_handle ''/collections/'' (''/pages/'' @ h) = None"
    by (simp add: match_handle_None)
  ultimately show ?thesis by (simp add: resolveRoute_def)
qed

lemma resolve_bad_segment:
  assumes "\<not> list_all is_handle_char seg" "pre \<in> {''/products/'', ''/collections/'', ''/pages/''}"
  shows "resolveRoute env s (pre @ seg) tid = (Inl (Error ''Page not found''), s)"
proof -
  have "match_handle p (pre @ seg) = None" if "p \<in> {''/products/'', ''/collections/'', ''/pages/''}" for p
    using that assms by (auto simp: match_handle_None)
  then have "match_handle ''/products/'' (pre @ seg) = None"
    "match_handle ''/collections/'' (pre @ seg) = None"
    "match_handle ''/pages/'' (pre @ seg) = None" by simp_all
  moreover have "pre @ seg \<noteq> ''/''" "pre \<noteq> []" using assms(2) by auto
  ultimately show ?thesis by (simp add: resolveRoute_def)
qed

lemma resolve_otherwise:
  assumes "path \<noteq> ''/''" "path \<noteq> []"
    and "\<forall>h. h \<noteq> [] \<and> list_all is_handle_char h \<longrightarrow>
           path \<noteq> ''/products/'' @ h \<and> path \<noteq> ''/collections/'' @ h \<and> path \<noteq> ''/pages/'' @ h"
  shows "resolveRoute env s path tid = (Inl (Error ''Page not found''), s)"
proof -
  have "match_handle ''/products/'' path = None"
    "match_handle ''/collections/'' path = None"
    "match_handle ''/pages/'' path = None"
    using assms(3) by (auto simp: match_handle_None)
  then show ?thesis using assms(1,2) by (simp add: resolveRoute_def)
qed

text \<open>
  C7. \<open>resolveRoute\<close> dispatches on the path alone: the root (\<open>/\<close> or the empty
  path) is the home page; \<open>/products/{handle}\<close>, \<open>/collections/{handle}\<close> and
  \<open>/pages/{handle}\<close>, with a non-empty handle of lowercase letters, digits and
  hyphens, go to the product, the collection and the page branch; every other path is
  \<open>Page not found\<close>, with the state untouched. In particular a segment with a
  character outside the class matches no pattern. The patterns exclude each other, so
  the order in which the code tries them decides nothing.
\<close>

theorem resolveRoute_dispatch:
  "(path = ''/'' \<or> path = [] \<longrightarrow> resolveRoute env s path tenantId = home_route env s tenantId) \<and>
   (handle \<noteq> [] \<and> list_all is_handle_char handle \<longrightarrow>
      resolveRoute env s (''/products/'' @ handle) tenantId = product_route env s tenantId handle \<and>
      resolveRoute env s (''/collections/'' @ handle) tenantId = collection_route env s tenantId handle \<and>
      resolveRoute env s (''/pages/'' @ handle) tenantId = (Inr (page_route handle), s)) \<and>
   (\<not> list_all is_handle_char segment \<longrightarrow>
      resolveRoute env s (''/products/'' @ segment) tenantId = (Inl (Error ''Page not found''), s) \<and>
      resolveRoute env s (''/collections/'' @ segment) tenantId = (Inl (Error ''Page not found''), s) \<and>
      resolveRoute env s (''/pages/'' @ segment) tenantId = (Inl (Error ''Page not found''), s)) \<and>
   (path \<noteq> ''/'' \<and> path \<noteq> [] \<and>
    (\<forall>h. h \<noteq> [] \<and> list_all is_handle_char h \<longrightarrow>
       path \<noteq> ''/products/'' @ h \<and> path \<noteq> ''/collections/'' @ h \<and> path \<noteq> ''/pages/'' @ h) \<longrightarrow>
      resolveRoute env s path tenantId = (Inl (Error ''Page not found''), s))"
proof (intro conjI impI)
  assume "path = ''/'' \<or> path = []"
  then show "resolveRoute env s path tenantId = home_route env s tenantId"
    by (auto simp: resolveRoute_def)
next
  assume h: "handle \<noteq> [] \<and> list_all is_handle_char handle"
  show "resolveRoute env s (''/products/'' @ handle) tenantId = product_route env s tenantId handle"
    using h resolve_products by blast
  show "resolveRoute env s (''/collections/'' @ handle) tenantId = collection_route env s tenantId handle"
    using h resolve_collections by blast
  show "resolveRoute env s (''/pages/'' @ handle) tenantId = (Inr (page_route handle), s)"
    using h resolve_pages by blast
next
  assume b: "\<not> list_all is_handle_char segment"
  show "resolveRoute env s (''/products/'' @ segment) tenantId = (Inl (Error ''Page not found''), s)"
    using resolve_bad_segment[OF b] by blast
  show "resolveRoute env s (''/collections/'' @ segment) tenantId = (Inl (Error ''Page not found''), s)"
    using resolve_bad_segment[OF b] by blast
  show "resolveRoute env s (''/pages/'' @ segment) tenantId = (Inl (Error ''Page not found''), s)"
    using resolve_bad_segment[OF b] by blast
next
  assume "path \<noteq> ''/'' \<and> path \<noteq> [] \<and>
    (\<forall>h. h \<noteq> [] \<and> list_all is_handle_char h \<longrightarrow>
       path \<noteq> ''/products/'' @ h \<and> path \<noteq> ''/collections/'' @ h \<and> path \<noteq> ''/pages/'' @ h)"
  then show "resolveRoute env s path tenantId = (Inl (Error ''Page not found''), s)"
    using resolve_otherwise by blast
qed


theorem resolveRoute_dispatch_witness:
  "resolveRoute demo_env demo_state ''/'' ''acme'' = home_route demo_env demo_state ''acme'' \<and>
   resolveRoute demo_env demo_state ''/products/about-us'' ''acme''
     = product_route demo_env demo_state ''acme'' ''about-us'' \<and>
   resolveRoute demo_env demo_state ''/pages/about-us'' ''acme''
     = (Inr (page_route ''about-us''), demo_state) \<and>
   resolveRoute demo_env demo_state ''/products/Blue_Shirt'' ''acme''
     = (Inl (Error ''Page not found''), demo_state) \<and>
   resolveRoute demo_env demo_state ''/cart'' ''acme''
     = (Inl (Error ''Page not found''), demo_state)"
proof -
  have a: "list_all is_handle_char ''about-us''" by code_simp
  have b: "\<not> list_all is_handle_char ''Blue_Shirt''" by code_simp
  have c: "''/cart'' \<noteq> ''/'' \<and> ''/cart'' \<noteq> [] \<and>
    (\<forall>h. h \<noteq> [] \<and> list_all is_handle_char h \<longrightarrow>
       ''/cart'' \<noteq> ''/products/'' @ h \<and> ''/cart'' \<noteq> ''/collections/'' @ h \<and>
       ''/cart'' \<noteq> ''/pages/'' @ h)" by simp
  have n: "''about-us'' \<noteq> []" by simp
  note d = resolveRoute_dispatch[where path="''/''" and env=demo_env and s=demo_state
        and tenantId="''acme''" and handle="''about-us''" and segment="''Blue_Shirt''"]
  note d' = resolveRoute_dispatch[where path="''/cart''" and env=demo_env and s=demo_state
        and tenantId="''acme''" and handle="''about-us''" and segment="''Blue_Shirt''"]
  have r1: "resolveRoute demo_env demo_state ''/'' ''acme'' = home_route demo_env demo_state ''acme''"
    using d[THEN conjunct1] by simp
  note r2 = d[THEN conjunct2, THEN conjunct1, THEN mp, OF conjI[OF n a]]
  note r3 = d[THEN conjunct2, THEN conjunct2, THEN conjunct1, THEN mp, OF b]
  note r4 = d'[THEN conjunct2, THEN conjunct2, THEN conjunct2, THEN mp, OF c]
  show ?thesis
    using r1 r2[THEN conjunct1] r2[THEN conjunct2, THEN conjunct2] r3[THEN conjunct1] r4
    by simp
qed

lemma truthy_miss: "c \<in> {None, Some []} \<Longrightarrow> truthy c = None"
  by (auto simp: truthy_def)

lemma truthy_nonempty: "h \<noteq> [] \<Longrightarrow> truthy (Some h) = Some h"
  by (simp add: truthy_def)

lemma getProducts_hit:
  assumes "redis_ready env"
    and "redis_get env s (products_key env tenantId options) = Inr (Some cached)" "cached \<noteq> []"
  shows "getProducts env s tenantId options = (parse_products (json env) cached, s)"
  using assms by (simp add: getProducts_def Let_def truthy_def)

lemma getCollections_hit:
  assumes "redis_ready env"
    and "redis_get env s (collections_key env tenantId options) = Inr (Some cached)" "cached \<noteq> []"
  shows "getCollections env s tenantId options = (parse_collections (json env) cached, s)"
  using assms by (simp add: getCollections_def Let_def truthy_def)

lemma getProducts_miss_state:
  assumes "redis_ready env" "db_ready env" "\<not> db_fails env" "\<forall>cmd. \<not> redis_fails env cmd"
    "0 < dataCacheTTL env" "tenant_schemas env tenantId = Some schema"
    and miss: "redis_get env s (products_key env tenantId options) \<in> {Inr None, Inr (Some [])}"
    and q: "query_products env tenantId (truthy (q_handle options))
                  (truthy (q_collection_id options))
                  (case q_limit options of None \<Rightarrow> 20 | Some n \<Rightarrow> n)
                  (case q_offset options of None \<Rightarrow> 0 | Some n \<Rightarrow> n) = Some products"
  shows "getProducts env s tenantId options =
           (Inr products,
            (count_query s)\<lparr>redis := AList.update (keyPrefix env @ products_key env tenantId options)
               (stringify_products (json env) products, now (count_query s) + dataCacheTTL env)
               (redis (count_query s))\<rparr>)"
proof -
  obtain c where c: "redis_get env s (products_key env tenantId options) = Inr c" "truthy c = None"
    using miss truthy_miss by auto
  show ?thesis
    using assms(1,2,4,5) c q
    by (simp add: getProducts_def Let_def redis_setex_def)
qed

lemma getCollections_miss_state:
  assumes "redis_ready env" "db_ready env" "\<not> db_fails env" "\<forall>cmd. \<not> redis_fails env cmd"
    "0 < dataCacheTTL env" "tenant_schemas env tenantId = Some schema"
    and miss: "redis_get env s (collections_key env tenantId options) \<in> {Inr None, Inr (Some [])}"
    and q: "query_collections env tenantId (truthy (q_handle options))
                  (case q_limit options of None \<Rightarrow> 20 | Some n \<Rightarrow> n)
                  (case q_offset options of None \<Rightarrow> 0 | Some n \<Rightarrow> n) = Some collections"
  shows "getCollections env s tenantId options =
           (Inr collections,
            (count_query s)\<lparr>redis := AList.update (keyPrefix env @ collections_key env tenantId options)
               (stringify_collections (json env) collections, now (count_query s) + dataCacheTTL env)
               (redis (count_query s))\<rparr>)"
proof -
  obtain c where c: "redis_get env s (collections_key env tenantId options) = Inr c" "truthy c = None"
    using miss truthy_miss by auto
  show ?thesis
    using assms(1,2,4,5) c q
    by (simp add: getCollections_def Let_def redis_setex_def)
qed

lemma redis_get_cached:
  assumes "\<not> redis_fails env GET" "0 < ttl"
  shows "redis_get env ((count_query s)\<lparr>redis := AList.update (keyPrefix env @ key)
               (v, now (count_query s) + ttl) (redis (count_query s))\<rparr>) key = Inr (Some v)"
  using assms by (simp add: redis_get_def update_conv' count_query_def)


lemma product_route_Nil:
  "getProducts env s tenantId (no_options\<lparr>q_handle := Some handle, q_limit := Some 1\<rparr>) = (Inr [], s')
   \<Longrightarrow> product_route env s tenantId handle = (Inl (Error ''Product not found''), s')"
  by (simp add: product_route_def)

lemma collection_route_Nil:
  "getCollections env s tenantId (no_options\<lparr>q_handle := Some handle, q_limit := Some 1\<rparr>) = (Inr [], s')
   \<Longrightarrow> collection_route env s tenantId handle = (Inl (Error ''Collection not found''), s')"
  by (simp add: collection_route_def)

lemma no_product_query:
  assumes "\<not> db_fails env" "tenant_schemas env tenantId = Some schema" "handle \<noteq> []"
    and "\<forall>p \<in> set (products_table schema). p_handle p = handle \<longrightarrow> p_status p \<noteq> ''active''"
  shows "query_products env tenantId
           (truthy (q_handle (no_options\<lparr>q_handle := Some handle, q_limit := Some 1\<rparr>)))
           (truthy (q_collection_id (no_options\<lparr>q_handle := Some handle, q_limit := Some 1\<rparr>)))
           (case q_limit (no_options\<lparr>q_handle := Some handle, q_limit := Some 1\<rparr>) of
              None \<Rightarrow> 20 | Some n \<Rightarrow> n)
           (case q_offset (no_options\<lparr>q_handle := Some handle, q_limit := Some 1\<rparr>) of
              None \<Rightarrow> 0 | Some n \<Rightarrow> n) = Some []"
proof -
  have "filter (\<lambda>p. p_status p = ''active'' \<and> p_handle p = handle \<and> True) (products_table schema) = []"
    using assms(4) by (auto simp: filter_empty_conv)
  then show ?thesis
    using assms(1-3) by (simp add: query_products_def no_options_def truthy_def)
qed

lemma no_collection_query:
  assumes "\<not> db_fails env" "tenant_schemas env tenantId = Some schema" "handle \<noteq> []"
    and "\<forall>c \<in> set (collections_table schema). c_handle c = handle \<longrightarrow> \<not> c_published c"
  shows "query_collections env tenantId
           (truthy (q_handle (no_options\<lparr>q_handle := Some handle, q_limit := Some 1\<rparr>)))
           (case q_limit (no_options\<lparr>q_handle := Some handle, q_limit := Some 1\<rparr>) of
              None \<Rightarrow> 20 | Some n \<Rightarrow> n)
           (case q_offset (no_options\<lparr>q_handle := Some handle, q_limit := Some 1\<rparr>) of
              None \<Rightarrow> 0 | Some n \<Rightarrow> n) = Some []"
proof -
  have "filter (\<lambda>c. c_published c \<and> c_handle c = handle) (collections_table schema) = []"
    using assms(4) by (auto simp: filter_empty_conv)
  then show ?thesis
    using assms(1-3) by (simp add: query_collections_def no_options_def truthy_def)
qed

text \<open>
  The sibling branches. An unknown product handle is a failure on the first request,
  which asks the database and caches the empty listing, and on every later one that
  finds a cached listing without a product. The state after the first request is
  given in full: one query counted, the empty listing cached for \<open>dataCacheTTL\<close>.
\<close>

lemma resolveRoute_product_not_found:
  assumes "handle \<noteq> []" "list_all is_handle_char handle" "redis_ready env"
  shows
   "(db_ready env \<and> \<not> db_fails env \<and> (\<forall>cmd. \<not> redis_fails env cmd) \<and> 0 < dataCacheTTL env \<and>
     tenant_schemas env tenantId = Some schema \<and>
     (\<forall>p \<in> set (products_table schema). p_handle p = handle \<longrightarrow> p_status p \<noteq> ''active'') \<and>
     redis_get env s (products_key env tenantId
        (no_options\<lparr>q_handle := Some handle, q_limit := Some 1\<rparr>)) \<in> {Inr None, Inr (Some [])}
     \<longrightarrow> resolveRoute env s (''/products/'' @ handle) tenantId
           = (Inl (Error ''Product not found''),
              (count_query s)\<lparr>redis := AList.update
                 (keyPrefix env @ products_key env tenantId
                    (no_options\<lparr>q_handle := Some handle, q_limit := Some 1\<rparr>))
                 (stringify_products (json env) [], now (count_query s) + dataCacheTTL env)
                 (redis (count_query s))\<rparr>)) \<and>
    (redis_get env s (products_key env tenantId
        (no_options\<lparr>q_handle := Some handle, q_limit := Some 1\<rparr>)) = Inr (Some cached) \<and>
     cached \<noteq> [] \<and> parse_products (json env) cached = Inr []
     \<longrightarrow> resolveRoute env s (''/products/'' @ handle) tenantId
           = (Inl (Error ''Product not found''), s))"
proof (intro conjI impI)
  let ?o = "no_options\<lparr>q_handle := Some handle, q_limit := Some 1\<rparr>"
  assume a: "db_ready env \<and> \<not> db_fails env \<and> (\<forall>cmd. \<not> redis_fails env cmd) \<and> 0 < dataCacheTTL env \<and>
     tenant_schemas env tenantId = Some schema \<and>
     (\<forall>p \<in> set (products_table schema). p_handle p = handle \<longrightarrow> p_status p \<noteq> ''active'') \<and>
     redis_get env s (products_key env tenantId ?o) \<in> {Inr None, Inr (Some [])}"
  have q: "query_products env tenantId (truthy (q_handle ?o)) (truthy (q_collection_id ?o))
             (case q_limit ?o of None \<Rightarrow> 20 | Some n \<Rightarrow> n)
             (case q_offset ?o of None \<Rightarrow> 0 | Some n \<Rightarrow> n) = Some []"
    using a assms(1) by (intro no_product_query) auto
  have "getProducts env s tenantId ?o =
           (Inr [],
            (count_query s)\<lparr>redis := AList.update (keyPrefix env @ products_key env tenantId ?o)
               (stringify_products (json env) [], now (count_query s) + dataCacheTTL env)
               (redis (count_query s))\<rparr>)"
    using a assms(3) q by (intro getProducts_miss_state) auto
  then show "resolveRoute env s (''/products/'' @ handle) tenantId
           = (Inl (Error ''Product not found''),
              (count_query s)\<lparr>redis := AList.update (keyPrefix env @ products_key env tenantId ?o)
                 (stringify_products (json env) [], now (count_query s) + dataCacheTTL env)
                 (redis (count_query s))\<rparr>)"
    using resolve_products[OF assms(1,2)] product_route_Nil by simp
next
  let ?o = "no_options\<lparr>q_handle := Some handle, q_limit := Some 1\<rparr>"
  assume a: "redis_get env s (products_key env tenantId ?o) = Inr (Some cached) \<and>
     cached \<noteq> [] \<and> parse_products (json env) cached = Inr []"
  then have "getProducts env s tenantId ?o = (Inr [], s)"
    using getProducts_hit[OF assms(3), of s tenantId ?o cached] by simp
  then show "resolveRoute env s (''/products/'' @ handle) tenantId = (Inl (Error ''Product not found''), s)"
    using resolve_products[OF assms(1,2)] product_route_Nil by simp
qed

lemma resolveRoute_collection_not_found:
  assumes "handle \<noteq> []" "list_all is_handle_char handle" "redis_ready env"
  shows
   "(db_ready env \<and> \<not> db_fails env \<and> (\<forall>cmd. \<not> redis_fails env cmd) \<and> 0 < dataCacheTTL env \<and>
     tenant_schemas env tenantId = Some schema \<and>
     (\<forall>c \<in> set (collections_table schema). c_handle c = handle \<longrightarrow> \<not> c_published c) \<and>
     redis_get env s (collections_key env tenantId
        (no_options\<lparr>q_handle := Some handle, q_limit := Some 1\<rparr>)) \<in> {Inr None, Inr (Some [])}
     \<longrightarrow> resolveRoute env s (''/collections/'' @ handle) tenantId
           = (Inl (Error ''Collection not found''),
              (count_query s)\<lparr>redis := AList.update
                 (keyPrefix env @ collections_key env tenantId
                    (no_options\<lparr>q_handle := Some handle, q_limit := Some 1\<rparr>))
                 (stringify_collections (json env) [], now (count_query s) + dataCacheTTL env)
                 (redis (count_query s))\<rparr>)) \<and>
    (redis_get env s (collections_key env tenantId
        (no_options\<lparr>q_handle := Some handle, q_limit := Some 1\<rparr>)) = Inr (Some cached) \<and>
     cached \<noteq> [] \<and> parse_collections (json env) cached = Inr []
     \<longrightarrow> resolveRoute env s (''/collections/'' @ handle) tenantId
           = (Inl (Error ''Collection not found''), s))"
proof (intro conjI impI)
  let ?o = "no_options\<lparr>q_handle := Some handle, q_limit := Some 1\<rparr>"
  assume a: "db_ready env \<and> \<not> db_fails env \<and> (\<forall>cmd. \<not> redis_fails env cmd) \<and> 0 < dataCacheTTL env \<and>
     tenant_schemas env tenantId = Some schema \<and>
     (\<forall>c \<in> set (collections_table schema). c_handle c = handle \<longrightarrow> \<not> c_published c) \<and>
     redis_get env s (collections_key env tenantId ?o) \<in> {Inr None, Inr (Some [])}"
  have q: "query_collections env tenantId (truthy (q_handle ?o))
             (case q_limit ?o of None \<Rightarrow> 20 | Some n \<Rightarrow> n)
             (case q_offset ?o of None \<Rightarrow> 0 | Some n \<Rightarrow> n) = Some []"
    using a assms(1) by (intro no_collection_query) auto
  have "getCollections env s tenantId ?o =
           (Inr [],
            (count_query s)\<lparr>redis := AList.update (keyPrefix env @ collections_key env tenantId ?o)
               (stringify_collections (json env) [], now (count_query s) + dataCacheTTL env)
               (redis (count_query s))\<rparr>)"
    using a assms(3) q by (intro getCollections_miss_state) auto
  then show "resolveRoute env s (''/collections/'' @ handle) tenantId
           = (Inl (Error ''Collection not found''),
              (count_query s)\<lparr>redis := AList.update (keyPrefix env @ collections_key env tenantId ?o)
                 (stringify_collections (json env) [], now (count_query s) + dataCacheTTL env)
                 (redis (count_query s))\<rparr>)"
    using resolve_collections[OF assms(1,2)] collection_route_Nil by simp
next
  let ?o = "no_options\<lparr>q_handle := Some handle, q_limit := Some 1\<rparr>"
  assume a: "redis_get env s (collections_key env tenantId ?o) = Inr (Some cached) \<and>
     cached \<noteq> [] \<and> parse_collections (json env) cached = Inr []"
  then have "getCollections env s tenantId ?o = (Inr [], s)"
    using getCollections_hit[OF assms(3), of s tenantId ?o cached] by simp
  then show "resolveRoute env s (''/collections/'' @ handle) tenantId = (Inl (Error ''Collection not found''), s)"
    using resolve_collections[OF assms(1,2)] collection_route_Nil by simp
qed

text \<open>
  The second request for an unknown product, made before the cached listing expires,
  fails like the first, provided \<open>JSON.parse\<close> reads the text of the empty listing back
  as the empty listing.
\<close>

lemma resolveRoute_product_not_found_again:
  assumes "handle \<noteq> []" "list_all is_handle_char handle" "redis_ready env"
    and "db_ready env" "\<not> db_fails env" "\<forall>cmd. \<not> redis_fails env cmd" "0 < dataCacheTTL env"
    and "tenant_schemas env tenantId = Some schema"
    and "\<forall>p \<in> set (products_table schema). p_handle p = handle \<longrightarrow> p_status p \<noteq> ''active''"
    and "redis_get env s (products_key env tenantId
        (no_options\<lparr>q_handle := Some handle, q_limit := Some 1\<rparr>)) \<in> {Inr None, Inr (Some [])}"
    and "stringify_products (json env) [] \<noteq> []"
    and "parse_products (json env) (stringify_products (json env) []) = Inr []"
  shows "resolveRoute env (snd (resolveRoute env s (''/products/'' @ handle) tenantId))
           (''/products/'' @ handle) tenantId
         = (Inl (Error ''Product not found''),
            snd (resolveRoute env s (''/products/'' @ handle) tenantId))"
proof -
  let ?o = "no_options\<lparr>q_handle := Some handle, q_limit := Some 1\<rparr>"
  let ?s' = "(count_query s)\<lparr>redis := AList.update (keyPrefix env @ products_key env tenantId ?o)
                 (stringify_products (json env) [], now (count_query s) + dataCacheTTL env)
                 (redis (count_query s))\<rparr>"
  note t = resolveRoute_product_not_found[OF assms(1-3), of tenantId schema]
  have "resolveRoute env s (''/products/'' @ handle) tenantId
          = (Inl (Error ''Product not found''), ?s')"
    by (rule t[of s, THEN conjunct1, THEN mp]) (intro conjI assms(4-10))
  then have 1: "snd (resolveRoute env s (''/products/'' @ handle) tenantId) = ?s'"
    by (simp only: snd_conv)
  have g: "redis_get env ?s' (products_key env tenantId ?o)
             = Inr (Some (stringify_products (json env) []))"
    using assms(6,7) by (intro redis_get_cached) auto
  show ?thesis
    unfolding 1
    by (rule t[of ?s' "stringify_products (json env) []", THEN conjunct2, THEN mp])
       (intro conjI g assms(11,12))
qed

text \<open>
  C3. An unknown handle under each of the three patterns is to be a not-found failure.
  The resolver fails so for \<open>/products/{handle}\<close> and \<open>/collections/{handle}\<close>. For
  \<open>/pages/{handle}\<close> it looks nothing up (the source marks the lookup as still to be
  written: \<open>// TODO: Fetch page content from page-service\<close>) and resolves every handle
  to the page route with a placeholder content. In the example deployment, which has
  no page, product or collection of the handle \<open>no-such-page\<close>, the page path
  resolves, with the state untouched, where the two sibling paths fail.
\<close>

theorem resolveRoute_unknown_page:
  "resolveRoute demo_env demo_state ''/pages/no-such-page'' ''acme''
     = (Inr \<lparr>rd_type = ''page'', rd_template = Some ''page'',
             rd_data = [(''page'', BPage ''no-such-page'' ''<p>Page content here</p>'')]\<rparr>,
        demo_state) \<and>
   fst (resolveRoute demo_env demo_state ''/products/no-such-page'' ''acme'')
     = Inl (Error ''Product not found'') \<and>
   fst (resolveRoute demo_env demo_state ''/collections/no-such-page'' ''acme'')
     = Inl (Error ''Collection not found'')"
proof -
  have a: "list_all is_handle_char ''no-such-page''" by code_simp
  have n: "''no-such-page'' \<noteq> []" by simp
  have r: "redis_ready demo_env" by (simp add: demo_env_def)
  have 1: "resolveRoute demo_env demo_state (''/pages/'' @ ''no-such-page'') ''acme''
          = (Inr (page_route ''no-such-page''), demo_state)"
    by (rule resolve_pages[OF n a])
  have p: "db_ready demo_env \<and> \<not> db_fails demo_env \<and> (\<forall>cmd. \<not> redis_fails demo_env cmd) \<and>
     0 < dataCacheTTL demo_env \<and> tenant_schemas demo_env ''acme'' = Some demo_schema \<and>
     (\<forall>p \<in> set (products_table demo_schema). p_handle p = ''no-such-page'' \<longrightarrow> p_status p \<noteq> ''active'') \<and>
     redis_get demo_env demo_state (products_key demo_env ''acme''
        (no_options\<lparr>q_handle := Some ''no-such-page'', q_limit := Some 1\<rparr>)) \<in> {Inr None, Inr (Some [])}"
    by (simp add: demo_schema_def demo_product_def redis_get_def demo_env_def demo_state_def)
  have c: "db_ready demo_env \<and> \<not> db_fails demo_env \<and> (\<forall>cmd. \<not> redis_fails demo_env cmd) \<and>
     0 < dataCacheTTL demo_env \<and> tenant_schemas demo_env ''acme'' = Some demo_schema \<and>
     (\<forall>c \<in> set (collections_table demo_schema). c_handle c = ''no-such-page'' \<longrightarrow> \<not> c_published c) \<and>
     redis_get demo_env demo_state (collections_key demo_env ''acme''
        (no_options\<lparr>q_handle := Some ''no-such-page'', q_limit := Some 1\<rparr>)) \<in> {Inr None, Inr (Some [])}"
    by (simp add: demo_schema_def redis_get_def demo_env_def demo_state_def)
  have 2: "fst (resolveRoute demo_env demo_state (''/products/'' @ ''no-such-page'') ''acme'')
             = Inl (Error ''Product not found'')"
    using resolveRoute_product_not_found[OF n a r, of "''acme''" demo_schema demo_state,
            THEN conjunct1, THEN mp, OF p] by simp
  have 3: "fst (resolveRoute demo_env demo_state (''/collections/'' @ ''no-such-page'') ''acme'')
             = Inl (Error ''Collection not found'')"
    using resolveRoute_collection_not_found[OF n a r, of "''acme''" demo_schema demo_state,
            THEN conjunct1, THEN mp, OF c] by simp
  show ?thesis using 1 2 3 by (simp add: page_route_def)
qed

subsection \<open>The page renderer\<close>

lemma templateName_fallback:
  "rd_template routeData \<in> {None, Some []} \<Longrightarrow> templateName_of routeData = ''index''"
  by (auto simp: templateName_of_def truthy_def)

lemma lookup_own:
  "own_template theme name = Some text \<Longrightarrow> template_lookup theme name = Some (Source text)"
  by (auto simp: own_template_def template_lookup_def split: option.splits)

lemma renderPage_present:
  assumes "own_template theme (templateName_of routeData) = Some templateSource"
    and "templateSource \<noteq> []"
  shows "renderPage liquid theme routeData context
        = (case liquid (Source templateSource) (templateData_of theme routeData context) of
             Inl e \<Rightarrow> Inl e
           | Inr html \<Rightarrow>
               (case truthy_source (template_lookup theme ''layout'') of
                  None \<Rightarrow> Inr html
                | Some layout \<Rightarrow>
                    liquid layout (AList.update ''content_for_layout'' (BText html)
                                     (templateData_of theme routeData context))))"
proof -
  have "truthy_source (template_lookup theme (templateName_of routeData))
          = Some (Source templateSource)"
    using lookup_own[OF assms(1)] assms(2) by (simp add: truthy_source_def)
  then show ?thesis by (simp add: renderPage_def Let_def)
qed

text \<open>
  A name that the template map lacks is not always a missing template: for the name of
  a member of \<open>Object.prototype\<close> the guard passes and the member goes to the engine.
\<close>

lemma renderPage_inherited_name:
  "renderPage liquid (demo_theme\<lparr>theme_templates := Some []\<rparr>)
     \<lparr>rd_type = ''page'', rd_template = Some ''constructor'', rd_data = []\<rparr> demo_context
   = liquid (Inherited ''constructor'')
       (templateData_of (demo_theme\<lparr>theme_templates := Some []\<rparr>)
          \<lparr>rd_type = ''page'', rd_template = Some ''constructor'', rd_data = []\<rparr> demo_context)"
  by (cases "liquid (Inherited ''constructor'')
       (templateData_of (demo_theme\<lparr>theme_templates := Some []\<rparr>)
          \<lparr>rd_type = ''page'', rd_template = Some ''constructor'', rd_data = []\<rparr> demo_context)")
     (simp_all add: renderPage_def Let_def templateName_of_def truthy_def template_lookup_def
        truthy_source_def object_prototype_names_def)

text \<open>
  C10, as amended. When \<open>routeData.template\<close> is absent or the empty string,
  \<open>renderPage\<close> does what it does for the template name \<open>index\<close>. The failure
  \<open>Template {name} not found\<close> arises only when the resolved name is absent from the
  theme's template map or its entry there is the empty string: when the map holds a
  non-empty source for the name, the result is what the engine makes of that source
  (and of the layout, if the theme has one), so unless the engine itself fails with that
  very error, a result \<open>Template {name} not found\<close> means that the entry is absent or
  empty.
\<close>

theorem renderPage_template:
  "(rd_template routeData \<in> {None, Some []} \<longrightarrow>
      renderPage liquid theme routeData context
        = renderPage liquid theme (routeData\<lparr>rd_template := Some ''index''\<rparr>) context) \<and>
   (own_template theme (templateName_of routeData) = Some templateSource \<and> templateSource \<noteq> [] \<longrightarrow>
      renderPage liquid theme routeData context
        = (case liquid (Source templateSource) (templateData_of theme routeData context) of
             Inl e \<Rightarrow> Inl e
           | Inr html \<Rightarrow>
               (case truthy_source (template_lookup theme ''layout'') of
                  None \<Rightarrow> Inr html
                | Some layout \<Rightarrow>
                    liquid layout (AList.update ''content_for_layout'' (BText html)
                                     (templateData_of theme routeData context))))) \<and>
   ((\<forall>source data. liquid source data
        \<noteq> Inl (Error (''Template '' @ templateName_of routeData @ '' not found''))) \<and>
    renderPage liquid theme routeData context
        = Inl (Error (''Template '' @ templateName_of routeData @ '' not found'')) \<longrightarrow>
      own_template theme (templateName_of routeData) \<in> {None, Some []})"
proof (intro conjI impI)
  assume a: "rd_template routeData \<in> {None, Some []}"
  have n: "templateName_of (routeData\<lparr>rd_template := Some ''index''\<rparr>) = templateName_of routeData"
    using templateName_fallback[OF a] by (simp add: templateName_of_def truthy_def)
  have d: "templateData_of theme (routeData\<lparr>rd_template := Some ''index''\<rparr>) context
             = templateData_of theme routeData context"
    using n by (simp add: templateData_of_def)
  show "renderPage liquid theme routeData context
        = renderPage liquid theme (routeData\<lparr>rd_template := Some ''index''\<rparr>) context"
    unfolding renderPage_def n d by (rule refl)
next
  assume "own_template theme (templateName_of routeData) = Some templateSource \<and> templateSource \<noteq> []"
  then show "renderPage liquid theme routeData context
        = (case liquid (Source templateSource) (templateData_of theme routeData context) of
             Inl e \<Rightarrow> Inl e
           | Inr html \<Rightarrow>
               (case truthy_source (template_lookup theme ''layout'') of
                  None \<Rightarrow> Inr html
                | Some layout \<Rightarrow>
                    liquid layout (AList.update ''content_for_layout'' (BText html)
                                     (templateData_of theme routeData context))))"
    using renderPage_present by blast
next
  let ?m = "''Template '' @ templateName_of routeData @ '' not found''"
  assume a: "(\<forall>source data. liquid source data \<noteq> Inl (Error ?m)) \<and>
             renderPage liquid theme routeData context = Inl (Error ?m)"
  show "own_template theme (templateName_of routeData) \<in> {None, Some []}"
  proof (rule ccontr)
    assume "own_template theme (templateName_of routeData) \<notin> {None, Some []}"
    then obtain src where s: "own_template theme (templateName_of routeData) = Some src" "src \<noteq> []"
      by (cases "own_template theme (templateName_of routeData)") auto
    have "renderPage liquid theme routeData context \<noteq> Inl (Error ?m)"
      using a unfolding renderPage_present[OF s]
      by (auto split: sum.splits option.splits)
    then show False using a by simp
  qed
qed

text \<open>
  The claim as stated fails on an empty template: the map of the theme has an entry for
  \<open>index\<close>, the empty string, and the page fails with the missing-template error.
\<close>

theorem renderPage_empty_template_counterexample:
  "own_template (demo_theme\<lparr>theme_templates := Some [(''index'', [])]\<rparr>) ''index'' = Some [] \<and>
   renderPage demo_liquid (demo_theme\<lparr>theme_templates := Some [(''index'', [])]\<rparr>)
     \<lparr>rd_type = ''home'', rd_template = None, rd_data = []\<rparr> demo_context
     = Inl (Error ''Template index not found'')"
  by (simp add: renderPage_def templateName_of_def template_lookup_def truthy_def
        truthy_source_def own_template_def)

theorem renderPage_template_witness:
  "renderPage demo_liquid demo_theme \<lparr>rd_type = ''home'', rd_template = None, rd_data = []\<rparr> demo_context
     = renderPage demo_liquid demo_theme
         \<lparr>rd_type = ''home'', rd_template = Some ''index'', rd_data = []\<rparr> demo_context \<and>
   renderPage demo_liquid demo_theme \<lparr>rd_type = ''home'', rd_template = None, rd_data = []\<rparr> demo_context
     = Inr ''<h1>{{ shop.name }}</h1>'' \<and>
   renderPage demo_liquid demo_theme \<lparr>rd_type = ''cart'', rd_template = Some ''cart'', rd_data = []\<rparr> demo_context
     = Inl (Error ''Template cart not found'') \<and>
   own_template demo_theme ''cart'' = None"
proof -
  let ?home = "\<lparr>rd_type = ''home'', rd_template = None, rd_data = []\<rparr>"
  let ?cart = "\<lparr>rd_type = ''cart'', rd_template = Some ''cart'', rd_data = []\<rparr>"
  note h = renderPage_template[of "?home" demo_liquid demo_theme demo_context
              "''<h1>{{ shop.name }}</h1>''"]
  note c = renderPage_template[of "?cart" demo_liquid demo_theme demo_context "[]"]
  have nh: "templateName_of ?home = ''index''" and nc: "templateName_of ?cart = ''cart''"
    by (simp_all add: templateName_of_def truthy_def)
  have 1: "rd_template ?home \<in> {None, Some []}" by simp
  have 2: "own_template demo_theme (templateName_of ?home) = Some ''<h1>{{ shop.name }}</h1>''
           \<and> ''<h1>{{ shop.name }}</h1>'' \<noteq> []"
    by (simp add: nh own_template_def demo_theme_def)
  have 3: "truthy_source (template_lookup demo_theme ''layout'') = None"
    by (simp add: template_lookup_def truthy_source_def demo_theme_def object_prototype_names_def)
  have 4: "renderPage demo_liquid demo_theme ?cart demo_context
             = Inl (Error (''Template '' @ templateName_of ?cart @ '' not found''))"
    by (simp add: nc renderPage_def template_lookup_def truthy_source_def demo_theme_def
          object_prototype_names_def)
  have 5: "\<forall>source data. demo_liquid source data
             \<noteq> Inl (Error (''Template '' @ templateName_of ?cart @ '' not found''))"
    by (simp add: demo_liquid_def split: template_source.splits)
  have 6: "own_template demo_theme (templateName_of ?cart) \<in> {None, Some []}"
    by (rule c[THEN conjunct2, THEN conjunct2, THEN mp, OF conjI[OF 5 4]])
  have 7: "own_template demo_theme ''cart'' \<noteq> Some []"
    by (simp add: own_template_def demo_theme_def)
  have 8: "own_template demo_theme ''cart'' = None" using 6 7 by (simp add: nc)
  have 9: "renderPage demo_liquid demo_theme ?home demo_context = Inr ''<h1>{{ shop.name }}</h1>''"
    using h[THEN conjunct2, THEN conjunct1, THEN mp, OF 2] 3 by (simp add: demo_liquid_def)
  have 10: "renderPage demo_liquid demo_theme ?cart demo_context = Inl (Error ''Template cart not found'')"
    using 4 by (simp add: nc)
  show ?thesis
    using h[THEN conjunct1, THEN mp, OF 1] 9 10 8 by simp
qed

subsection \<open>The theme loader\<close>






lemma now_loadThemeFromStorage: "now (snd (loadThemeFromStorage env s tenantId)) = now s"
  by (auto simp: loadThemeFromStorage_def fetchThemeTemplatesFromS3_def count_query_def
           split: option.splits list.splits)

lemma memoryCache_get_set:
  "0 < themesCacheTTL env \<Longrightarrow>
   memoryCache_get (memoryCache_set env s key v\<lparr>redis := r, now := now s + d\<rparr>) key
     = (if d < themesCacheTTL env then Some v else None)"
  by (simp add: memoryCache_get_def memoryCache_set_def update_conv')

text \<open>
  C6. Whenever \<open>getThemeForTenant\<close> returns a theme after both caches missed, the
  process-local cache holds the theme and the distributed cache holds its JSON text
  under \<open>theme:{tenantId}\<close>; and a lookup made any time within the TTL returns the
  same theme and leaves the state as it is, so it makes no database query and no
  blob-store request.
\<close>

theorem getThemeForTenant_populates:
  assumes miss1: "memoryCache_get s (theme_key tenantId) = None"
    and miss2: "redis_get env s (theme_key tenantId) \<in> {Inr None, Inr (Some [])}"
    and ret: "getThemeForTenant env s tenantId = (Inr (Some theme), s')"
  shows "memoryCache_get s' (theme_key tenantId) = Some theme \<and>
         redis_get env s' (theme_key tenantId) = Inr (Some (stringify_theme (json env) theme)) \<and>
         (\<forall>d < themesCacheTTL env.
            getThemeForTenant env (s'\<lparr>now := now s' + d\<rparr>) tenantId
              = (Inr (Some theme), s'\<lparr>now := now s' + d\<rparr>) \<and>
            db_queries (snd (getThemeForTenant env (s'\<lparr>now := now s' + d\<rparr>) tenantId)) = db_queries s' \<and>
            s3_requests (snd (getThemeForTenant env (s'\<lparr>now := now s' + d\<rparr>) tenantId)) = s3_requests s')"
proof -
  let ?k = "theme_key tenantId"
  obtain c where c: "redis_get env s ?k = Inr c" "truthy c = None"
    using miss2 by (auto simp: truthy_def)
  have nf: "\<not> redis_fails env GET"
    using c(1) by (auto simp: redis_get_def split: if_splits)
  obtain s1 where l: "loadThemeFromStorage env s tenantId = (Inr (Some theme), s1)"
    and x: "redis_setex env (memoryCache_set env s1 ?k theme) ?k (themesCacheTTL env)
              (stringify_theme (json env) theme) = Inr s'"
    using ret miss1 c
    by (auto simp: getThemeForTenant_def Let_def split: if_splits sum.splits option.splits prod.splits)
  let ?s2 = "memoryCache_set env s1 ?k theme"
  have ttl: "0 < themesCacheTTL env"
    using x by (auto simp: redis_setex_def split: if_splits)
  have s': "s' = ?s2\<lparr>redis := AList.update (keyPrefix env @ ?k)
                    (stringify_theme (json env) theme, now ?s2 + themesCacheTTL env) (redis ?s2)\<rparr>"
    using x by (auto simp: redis_setex_def split: if_splits)
  have mc: "memoryCache s' = AList.update ?k (theme, Some (now s1 + themesCacheTTL env)) (memoryCache s1)"
    and nw: "now s' = now s1"
    and rd: "redis s' = AList.update (keyPrefix env @ ?k)
                    (stringify_theme (json env) theme, now s1 + themesCacheTTL env) (redis s1)"
    using ttl by (simp_all add: s' memoryCache_set_def)
  have m: "memoryCache_get (s'\<lparr>now := now s' + d\<rparr>) ?k = Some theme" if "d < themesCacheTTL env" for d
    using that by (simp add: memoryCache_get_def mc nw update_conv')
  have m0: "memoryCache_get s' ?k = Some theme"
    using ttl by (simp add: memoryCache_get_def mc nw update_conv')
  have r: "redis_get env s' ?k = Inr (Some (stringify_theme (json env) theme))"
    using nf ttl by (simp add: redis_get_def rd nw update_conv')
  have again: "getThemeForTenant env (s'\<lparr>now := now s' + d\<rparr>) tenantId
                 = (Inr (Some theme), s'\<lparr>now := now s' + d\<rparr>)" if "d < themesCacheTTL env" for d
    using m[OF that] by (simp add: getThemeForTenant_def)
  show ?thesis using m0 r again by simp
qed

theorem getThemeForTenant_populates_witness:
  "memoryCache_get (snd (getThemeForTenant demo_env demo_state ''acme'')) (theme_key ''acme'')
     = Some demo_theme \<and>
   redis_get demo_env (snd (getThemeForTenant demo_env demo_state ''acme'')) (theme_key ''acme'')
     = Inr (Some ''{id:th1}'') \<and>
   db_queries (snd (getThemeForTenant demo_env
       ((snd (getThemeForTenant demo_env demo_state ''acme''))\<lparr>now := 1000 + 3599\<rparr>) ''acme'')) = 1 \<and>
   s3_requests (snd (getThemeForTenant demo_env
       ((snd (getThemeForTenant demo_env demo_state ''acme''))\<lparr>now := 1000 + 3599\<rparr>) ''acme'')) = 6"
proof -
  define s' where "s' = snd (getThemeForTenant demo_env demo_state ''acme'')"
  have 1: "memoryCache_get demo_state (theme_key ''acme'') = None"
    by (simp add: memoryCache_get_def demo_state_def)
  have 2: "redis_get demo_env demo_state (theme_key ''acme'') \<in> {Inr None, Inr (Some [])}"
    by (simp add: redis_get_def demo_state_def demo_env_def)
  have f: "fst (getThemeForTenant demo_env demo_state ''acme'') = Inr (Some demo_theme)"
    by code_simp
  have 3: "getThemeForTenant demo_env demo_state ''acme'' = (Inr (Some demo_theme), s')"
    using f by (simp add: s'_def prod_eq_iff)
  note t = getThemeForTenant_populates[OF 1 2 3]
  have n: "now s' = 1000" unfolding s'_def by code_simp
  have q: "db_queries s' = 1" unfolding s'_def by code_simp
  have r: "s3_requests s' = 6" unfolding s'_def by code_simp
  have j: "stringify_theme (json demo_env) demo_theme = ''{id:th1}''" by code_simp
  have d: "(3599::nat) < themesCacheTTL demo_env" by (simp add: demo_env_def)
  from t[THEN conjunct2, THEN conjunct2, THEN spec, THEN mp, OF d]
  have u: "db_queries (snd (getThemeForTenant demo_env (s'\<lparr>now := now s' + 3599\<rparr>) ''acme'')) = db_queries s'"
    "s3_requests (snd (getThemeForTenant demo_env (s'\<lparr>now := now s' + 3599\<rparr>) ''acme'')) = s3_requests s'"
    by simp_all
  show ?thesis
    using t[THEN conjunct1] t[THEN conjunct2, THEN conjunct1] u n q r j
    by (simp add: s'_def)
qed

subsection \<open>The tenant resolver\<close>

lemma query_tenant_none:
  assumes "\<not> db_fails env"
    and "\<forall>t \<in> set (platform_tenants env). \<forall>dm \<in> set (platform_domain_mapping env).
           \<not> (t_tenant_id t = dm_tenant_id dm \<and> dm_domain dm = host \<and> dm_verified dm \<and>
              t_status t = ''active'')"
  shows "query_tenant env host = Some []"
proof -
  have "concat (map (\<lambda>t. concat (map (\<lambda>dm.
           if t_tenant_id t = dm_tenant_id dm \<and> dm_domain dm = host \<and> dm_verified dm \<and>
              t_status t = ''active'' then [t] else []) (platform_domain_mapping env)))
         (platform_tenants env)) = []"
    using assms(2) by (auto simp: concat_eq_Nil_conv)
  then show ?thesis using assms(1) by (simp add: query_tenant_def)
qed

text \<open>
  C8, as amended. For a host with no verified domain mapping to an active tenant,
  \<open>getTenantFromHost\<close> returns \<open>null\<close> and caches nothing, provided the clients are
  initialised, the cache and the registry answer, and the cache holds no live entry
  under \<open>tenant:host:{host}\<close>. A live entry is returned as it is, without a look at
  the registry.
\<close>

theorem getTenantFromHost_not_found:
  assumes "redis_ready env" "db_ready env" "\<not> db_fails env"
    and "\<forall>t \<in> set (platform_tenants env). \<forall>dm \<in> set (platform_domain_mapping env).
           \<not> (t_tenant_id t = dm_tenant_id dm \<and> dm_domain dm = host \<and> dm_verified dm \<and>
              t_status t = ''active'')"
    and "redis_get env s (tenant_key host) \<in> {Inr None, Inr (Some [])}"
  shows "getTenantFromHost env s host = (Inr None, count_query s)"
proof -
  obtain c where c: "redis_get env s (tenant_key host) = Inr c" "truthy c = None"
    using assms(5) by (auto simp: truthy_def)
  show ?thesis
    using assms(1,2) c query_tenant_none[OF assms(3,4)]
    by (simp add: getTenantFromHost_def)
qed

text \<open>
  The claim as stated fails on a cached entry: the host is resolved once, its mapping is
  removed with no call of \<open>invalidateTenantCache\<close>, and the next resolution still
  returns the tenant.
\<close>

theorem getTenantFromHost_stale_counterexample:
  "platform_domain_mapping demo_env_unmapped = [] \<and>
   fst (getTenantFromHost demo_env_unmapped
          (snd (getTenantFromHost demo_env demo_state ''shop.acme.test'')) ''shop.acme.test'')
     = Inr (Some demo_tenant)"
proof -
  have "fst (getTenantFromHost demo_env_unmapped
          (snd (getTenantFromHost demo_env demo_state ''shop.acme.test'')) ''shop.acme.test'')
     = Inr (Some demo_tenant)" by code_simp
  then show ?thesis by (simp add: demo_env_unmapped_def)
qed

theorem getTenantFromHost_not_found_witness:
  "getTenantFromHost demo_env demo_state ''elsewhere.test'' = (Inr None, count_query demo_state) \<and>
   getTenantFromHost demo_env_unmapped demo_state ''shop.acme.test''
     = (Inr None, count_query demo_state)"
proof -
  have e: "redis_ready demo_env" "db_ready demo_env" "\<not> db_fails demo_env"
    "redis_ready demo_env_unmapped" "db_ready demo_env_unmapped" "\<not> db_fails demo_env_unmapped"
    by (simp_all add: demo_env_def demo_env_unmapped_def)
  have m1: "\<forall>t \<in> set (platform_tenants demo_env). \<forall>dm \<in> set (platform_domain_mapping demo_env).
           \<not> (t_tenant_id t = dm_tenant_id dm \<and> dm_domain dm = ''elsewhere.test'' \<and> dm_verified dm \<and>
              t_status t = ''active'')"
    by (simp add: demo_env_def)
  have m2: "\<forall>t \<in> set (platform_tenants demo_env_unmapped).
           \<forall>dm \<in> set (platform_domain_mapping demo_env_unmapped).
           \<not> (t_tenant_id t = dm_tenant_id dm \<and> dm_domain dm = ''shop.acme.test'' \<and> dm_verified dm \<and>
              t_status t = ''active'')"
    by (simp add: demo_env_def demo_env_unmapped_def)
  have c1: "redis_get demo_env demo_state (tenant_key ''elsewhere.test'') \<in> {Inr None, Inr (Some [])}"
    by (simp add: redis_get_def demo_env_def demo_state_def)
  have c2: "redis_get demo_env_unmapped demo_state (tenant_key ''shop.acme.test'') \<in> {Inr None, Inr (Some [])}"
    by (simp add: redis_get_def demo_env_def demo_env_unmapped_def demo_state_def)
  show ?thesis
    using getTenantFromHost_not_found[OF e(1,2,3) m1 c1]
      getTenantFromHost_not_found[OF e(4,5,6) m2 c2]
    by simp
qed

text \<open>
  After \<open>invalidateTenantCache\<close> the host's key is a miss, so the next resolution asks
  the registry.
\<close>

lemma invalidateTenantCache_misses:
  assumes "invalidateTenantCache env s host = (Inr (), s')" "\<not> redis_fails env GET"
  shows "redis_get env s' (tenant_key host) = Inr None"
proof -
  have r: "redis s' = filter (\<lambda>(k, v). k \<noteq> keyPrefix env @ tenant_key host) (redis s)"
    using assms(1) by (auto simp: invalidateTenantCache_def redis_del_def split: if_splits sum.splits)
  have "map_of (filter (\<lambda>(k, v). k \<noteq> a) xs) a = None" for a and xs :: "(string \<times> string \<times> nat) list"
    by (induction xs) auto
  then show ?thesis using assms(2) r by (simp add: redis_get_def)
qed

subsection \<open>The block renderer\<close>











subsection \<open>The catalog cache\<close>

text \<open>
  C1. \<open>invalidateProductCache\<close> is written to delete every cached product and
  collection listing of a tenant. With a non-empty client key prefix it deletes none of
  them: \<open>keys\<close> replies the matching keys with their prefix, and \<open>del\<close> prepends the
  prefix to each once more. In the example deployment (prefix \<open>sf:\<close>) the product
  listing cached by \<open>getProducts\<close> is still in the cache, and still served by it, after
  \<open>invalidateProductCache\<close> has returned.
\<close>

theorem invalidateProductCache_prefixed_keys_remain:
  "keyPrefix demo_env = ''sf:'' \<and>
   fst (invalidateProductCache demo_env
          (snd (getProducts demo_env demo_state ''acme'' no_options)) ''acme'') = Inr () \<and>
   redis_get demo_env
     (snd (invalidateProductCache demo_env
             (snd (getProducts demo_env demo_state ''acme'' no_options)) ''acme''))
     (products_key demo_env ''acme'' no_options) = Inr (Some ''[blue-shirt,]'') \<and>
   redis (snd (invalidateProductCache demo_env
             (snd (getProducts demo_env demo_state ''acme'' no_options)) ''acme''))
     = [(''sf:products:acme:{}'', ''[blue-shirt,]'', 1300)]"
  by code_simp


lemma parse_glob_literal:
  "glob_literal p \<Longrightarrow> parse_glob (p @ q) = map GLit p @ parse_glob q"
  by (induction p) (auto simp: glob_literal_def)

lemma glob_match_star: "glob_match [GStar] k"
  by (induction k) auto

lemma glob_match_literal:
  "glob_match (map GLit p @ ts) k \<longleftrightarrow> (\<exists>r. k = p @ r \<and> glob_match ts r)"
proof (induction p arbitrary: k)
  case Nil
  then show ?case by simp
next
  case (Cons a p)
  show ?case by (cases k) (auto simp: Cons)
qed

lemma stringmatch_prefix:
  "glob_literal p \<Longrightarrow> stringmatch (p @ ''*'') k \<longleftrightarrow> prefix p k"
  using parse_glob_literal[of p "''*''"] glob_match_literal[of p "[GStar]" k]
  by (auto simp: stringmatch_def glob_match_star prefix_def)

lemma glob_literal_append: "glob_literal (p @ q) \<longleftrightarrow> glob_literal p \<and> glob_literal q"
  by (auto simp: glob_literal_def)

lemma delete_matching_unprefixed:
  assumes "keyPrefix env = []" "delete_matching env s pattern = Inr s1"
  shows "now s1 = now s"
    and "set (redis s1) \<subseteq> set (redis s)"
    and "\<forall>(k, v, expiry) \<in> set (redis s1). now s < expiry \<longrightarrow> \<not> stringmatch pattern k"
proof -
  define keys where "keys = map fst (filter (\<lambda>(k, v, expiry). now s < expiry \<and> stringmatch pattern k) (redis s))"
  have k: "redis_keys env s pattern = Inr keys"
    using assms(2) by (auto simp: delete_matching_def redis_keys_def keys_def split: if_splits sum.splits)
  have s1: "redis s1 = filter (\<lambda>(k, v). k \<notin> set keys) (redis s) \<and> now s1 = now s"
    using assms k by (cases "keys = []") (auto simp: delete_matching_def redis_del_def split: if_splits)
  show "now s1 = now s" using s1 by simp
  show "set (redis s1) \<subseteq> set (redis s)" using s1 by auto
  show "\<forall>(k, v, expiry) \<in> set (redis s1). now s < expiry \<longrightarrow> \<not> stringmatch pattern k"
    using s1 by (force simp: keys_def)
qed

text \<open>
  With an empty key prefix and a tenant id free of glob metacharacters the purge is
  complete: after a successful \<open>invalidateProductCache\<close> no live key of the server
  starts with \<open>products:{tenantId}:\<close> or \<open>collections:{tenantId}:\<close>, however many
  listings were cached.
\<close>

lemma invalidateProductCache_purges_unprefixed:
  assumes "keyPrefix env = []" "glob_literal tenantId"
    and "invalidateProductCache env s tenantId = (Inr (), s')"
  shows "\<forall>(k, v, expiry) \<in> set (redis s'). now s' < expiry \<longrightarrow>
           \<not> prefix (''products:'' @ tenantId @ '':'') k \<and>
           \<not> prefix (''collections:'' @ tenantId @ '':'') k"
proof -
  let ?p = "''products:'' @ tenantId @ '':''" and ?c = "''collections:'' @ tenantId @ '':''"
  have lp: "glob_literal ?p" and lc: "glob_literal ?c"
    using assms(2) by (simp_all add: glob_literal_append) (simp_all add: glob_literal_def)
  obtain s1 where d1: "delete_matching env s (?p @ ''*'') = Inr s1"
    and d2: "delete_matching env s1 (?c @ ''*'') = Inr s'"
    using assms(1,3) by (auto simp: invalidateProductCache_def split: if_splits sum.splits)
  note a = delete_matching_unprefixed[OF assms(1) d1]
  note b = delete_matching_unprefixed[OF assms(1) d2]
  show ?thesis
  proof (clarify)
    fix k v expiry
    assume m: "(k, v, expiry) \<in> set (redis s')" and l: "now s' < expiry"
    have "\<not> stringmatch (?c @ ''*'') k" using b(3) m l b(1) by auto
    moreover have "\<not> stringmatch (?p @ ''*'') k" using a(3) b(2) m l a(1) b(1) by auto
    ultimately show "\<not> prefix ?p k \<and> \<not> prefix ?c k"
      using stringmatch_prefix[OF lp] stringmatch_prefix[OF lc] by simp
  qed
qed

text \<open>
  The listings of \<open>getProductsFromService\<close> are outside both patterns: even where
  the purge is complete, a key \<open>storefront:products:{tenantId}:...\<close> stays.
\<close>

lemma storefront_key_no_match:
  "\<not> stringmatch (''products:'' @ tenantId @ '':*'') (storefront_products_key t j)"
  "\<not> stringmatch (''collections:'' @ tenantId @ '':*'') (storefront_products_key t j)"
  by (simp_all add: stringmatch_def storefront_products_key_def)

lemma delete_matching_keeps:
  assumes "keyPrefix env = []" "delete_matching env s pattern = Inr s1"
    and "\<not> stringmatch pattern k" "(k, v) \<in> set (redis s)"
  shows "(k, v) \<in> set (redis s1)"
proof -
  define keys where "keys = map fst (filter (\<lambda>(k, v, expiry). now s < expiry \<and> stringmatch pattern k) (redis s))"
  have k: "redis_keys env s pattern = Inr keys"
    using assms(2) by (auto simp: delete_matching_def redis_keys_def keys_def split: if_splits sum.splits)
  have s1: "redis s1 = filter (\<lambda>(k, v). k \<notin> set keys) (redis s)"
    using assms(1,2) k by (cases "keys = []") (auto simp: delete_matching_def redis_del_def split: if_splits)
  have "k \<notin> set keys" using assms(3) by (auto simp: keys_def)
  then show ?thesis using assms(4) s1 by auto
qed

lemma invalidateProductCache_keeps_storefront_keys:
  assumes "keyPrefix env = []"
    and "invalidateProductCache env s tenantId = (Inr (), s')"
    and "(storefront_products_key tenantId optionsJson, v) \<in> set (redis s)"
  shows "(storefront_products_key tenantId optionsJson, v) \<in> set (redis s')"
proof -
  obtain s1 where d1: "delete_matching env s (''products:'' @ tenantId @ '':*'') = Inr s1"
    and d2: "delete_matching env s1 (''collections:'' @ tenantId @ '':*'') = Inr s'"
    using assms(1,2) by (auto simp: invalidateProductCache_def split: if_splits sum.splits)
  show ?thesis
    using delete_matching_keeps[OF assms(1) d2 storefront_key_no_match(2)]
      delete_matching_keeps[OF assms(1) d1 storefront_key_no_match(1) assms(3)]
    by blast
qed

end
